theory Spec2Isabelle
  imports Main "HOL-Library.Sublist" "HOL-Library.Word"
begin

section \<open>The remix.init script of symphonic-stack\<close>

text \<open>
  A shallow embedding of \<^verbatim>\<open>remix.init/index.js\<close>. A JavaScript string is a
  \<open>string\<close>: one \<open>char\<close> stands for one code unit. The functions of Node and of the npm
  packages the script calls (\<^verbatim>\<open>path\<close>, \<^verbatim>\<open>crypto\<close>, \<^verbatim>\<open>child_process\<close>, \<^verbatim>\<open>semver\<close>,
  the TOML, YAML and JSON parsers) are not part of the repository; they are the fields of
  an environment record, a parameter of the functions that call them.
\<close>

subsection \<open>Errors\<close>

datatype error =
  TypeError
  | SyntaxError
  | ENOENT string
  | Failure string

definition bind_result :: "error + 'a \<Rightarrow> ('a \<Rightarrow> error + 'b) \<Rightarrow> error + 'b" where
  "bind_result r f = (case r of Inl e \<Rightarrow> Inl e | Inr x \<Rightarrow> f x)"

subsection \<open>String.prototype.replace and regular expressions\<close>

text \<open>
  \<^verbatim>\<open>GetSubstitution\<close> of ECMAScript for a match without capture groups: in the
  replacement text \<^verbatim>\<open>$$\<close> is a dollar sign, \<^verbatim>\<open>$&\<close> the matched text, \<^verbatim>\<open>$`\<close> the text
  before the match and \<^verbatim>\<open>$'\<close> the text after it; every other character, a dollar sign
  before a digit or \<^verbatim>\<open><\<close> included, is copied.
\<close>

fun GetSubstitution :: "string \<Rightarrow> string \<Rightarrow> string \<Rightarrow> string \<Rightarrow> string" where
  "GetSubstitution matched pre post [] = []"
| "GetSubstitution matched pre post [c] = [c]"
| "GetSubstitution matched pre post (c # d # t) =
     (if c = CHR ''$'' \<and> d = CHR ''$'' then CHR ''$'' # GetSubstitution matched pre post t
      else if c = CHR ''$'' \<and> d = CHR ''&'' then matched @ GetSubstitution matched pre post t
      else if c = CHR ''$'' \<and> d = CHR 0x60 then pre @ GetSubstitution matched pre post t
      else if c = CHR ''$'' \<and> d = CHR 0x27 then post @ GetSubstitution matched pre post t
      else c # GetSubstitution matched pre post (d # t))"

text \<open>
  \<^verbatim>\<open>str.replace(searchString, replaceValue)\<close> with a string pattern: only the first
  occurrence is replaced. \<open>pre\<close> is the text already passed.
\<close>

fun replace_from :: "string \<Rightarrow> string \<Rightarrow> string \<Rightarrow> string \<Rightarrow> string" where
  "replace_from pre [] pat tpl =
     (if pat = [] then pre @ GetSubstitution pat pre [] tpl else pre)"
| "replace_from pre (c # cs) pat tpl =
     (if prefix pat (c # cs)
      then pre @ GetSubstitution pat pre (drop (length pat) (c # cs)) tpl
             @ drop (length pat) (c # cs)
      else replace_from (pre @ [c]) cs pat tpl)"

definition String_replace :: "string \<Rightarrow> string \<Rightarrow> string \<Rightarrow> string" where
  "String_replace s pat tpl = replace_from [] s pat tpl"

text \<open>
  The regular expressions of the script: a sequence of atoms, each matching one
  character. A class item is a character or a range of code units.
\<close>

datatype class_item = Single char | Range char char

datatype atom = Chr char | Class bool "class_item list"

type_synonym regexp = "atom list"

fun item_matches :: "class_item \<Rightarrow> char \<Rightarrow> bool" where
  "item_matches (Single d) c = (c = d)"
| "item_matches (Range lo hi) c =
     ((of_char lo :: nat) \<le> of_char c \<and> (of_char c :: nat) \<le> of_char hi)"

fun atom_matches :: "atom \<Rightarrow> char \<Rightarrow> bool" where
  "atom_matches (Chr d) c = (c = d)"
| "atom_matches (Class negated items) c = (negated \<noteq> (\<exists>i \<in> set items. item_matches i c))"

text \<open>Whether the expression matches at the start of the text; it then consumes one
  character for each atom.\<close>

fun matches_at :: "regexp \<Rightarrow> string \<Rightarrow> bool" where
  "matches_at [] s = True"
| "matches_at (a # as) [] = False"
| "matches_at (a # as) (c # cs) = (atom_matches a c \<and> matches_at as cs)"

text \<open>
  \<^verbatim>\<open>str.replace(re, replaceValue)\<close> for an expression with the \<^verbatim>\<open>g\<close> flag: the matches
  are found from left to right, the search resuming after each match (one character
  further after an empty match), and each is replaced by its substitution.
\<close>

fun replace_all_from :: "string \<Rightarrow> string \<Rightarrow> regexp \<Rightarrow> string \<Rightarrow> string" where
  "replace_all_from pre [] re tpl =
     (if matches_at re [] then GetSubstitution [] pre [] tpl else [])"
| "replace_all_from pre (c # cs) re tpl =
     (if matches_at re (c # cs) then
        (if re = [] then
           GetSubstitution [] pre (c # cs) tpl @ c # replace_all_from (pre @ [c]) cs re tpl
         else
           GetSubstitution (take (length re) (c # cs)) pre (drop (length re) (c # cs)) tpl
             @ replace_all_from (pre @ take (length re) (c # cs))
                 (drop (length re - 1) cs) re tpl)
      else c # replace_all_from (pre @ [c]) cs re tpl)"

definition RegExp_replace :: "string \<Rightarrow> regexp \<Rightarrow> string \<Rightarrow> string" where
  "RegExp_replace s re tpl = replace_all_from [] s re tpl"

text \<open>The syntax characters of a pattern.\<close>

definition SyntaxCharacter :: "char \<Rightarrow> bool" where
  "SyntaxCharacter c = (c \<in> set (CHR 0x5C # ''^$.*+?()[]{}|''))"

text \<open>
  \<^verbatim>\<open>new RegExp(source, 'g')\<close> for the patterns the script builds: a character that is
  not a syntax character matches itself, and so does a syntax character after a
  backslash. Any other pattern is outside this fragment and is reported as a
  \<open>SyntaxError\<close>.
\<close>

fun RegExp :: "string \<Rightarrow> error + regexp" where
  "RegExp [] = Inr []"
| "RegExp [c] = (if SyntaxCharacter c then Inl SyntaxError else Inr [Chr c])"
| "RegExp (c # d # t) =
     (if c = CHR 0x5C then
        (if SyntaxCharacter d then bind_result (RegExp t) (\<lambda>re. Inr (Chr d # re))
         else Inl SyntaxError)
      else if SyntaxCharacter c then Inl SyntaxError
      else bind_result (RegExp (d # t)) (\<lambda>re. Inr (Chr c # re)))"

text \<open>
  \<^verbatim>\<open>string.replace(/[.*+?^${}()|[\]\\]/g, '\\$&')\<close>: the class lists the fourteen
  characters, and the replacement is a backslash followed by \<^verbatim>\<open>$&\<close>.
\<close>

definition escapeRegExp :: "string \<Rightarrow> string" where
  "escapeRegExp string =
     RegExp_replace string
       [Class False
          [Single CHR ''.'', Single CHR ''*'', Single CHR ''+'', Single CHR ''?'',
           Single CHR ''^'', Single CHR ''$'', Single CHR ''{'', Single CHR ''}'',
           Single CHR ''('', Single CHR '')'', Single CHR ''|'', Single CHR ''['',
           Single CHR '']'', Single CHR 0x5C]]
       [CHR 0x5C, CHR ''$'', CHR ''&'']"

subsection \<open>Documents and the file system\<close>

text \<open>
  A parsed TOML document is a table from keys to values. Only strings have a
  \<^verbatim>\<open>replace\<close> method.
\<close>

datatype toml_value =
  TomlString string
  | TomlInteger int
  | TomlBoolean bool
  | TomlArray "toml_value list"
  | TomlTable "(string \<times> toml_value) list"

type_synonym toml_document = "string \<rightharpoonup> toml_value"

text \<open>
  The deploy workflow, as far as the script reads it: the \<^verbatim>\<open>jobs\<close> map, and in a job
  its \<^verbatim>\<open>needs\<close> entry, which YAML allows to be one name or a sequence of names. A key
  that is absent (\<^verbatim>\<open>undefined\<close> in JavaScript) is \<open>None\<close>.
\<close>

datatype needs_value = NeedsScalar string | NeedsSeq "string list"

record job =
  needs :: "needs_value option"

record workflow =
  jobs :: "(string \<rightharpoonup> job) option"

text \<open>
  The content of \<^verbatim>\<open>package.json\<close>, as far as the script reads it. The maps have string
  values, as npm requires.
\<close>

record manifest =
  name :: "string option"
  devDependencies :: "(string \<rightharpoonup> string) option"
  scripts :: "(string \<rightharpoonup> string) option"

type_synonym filesystem = "string \<rightharpoonup> string"

text \<open>What the script receives from Node and from the packages it requires.\<close>

record env =
  path_join :: "string list \<Rightarrow> string"
  path_basename :: "string \<Rightarrow> string"
  entropy :: "nat \<Rightarrow> 8 word"
  execSync_stdout :: "string \<Rightarrow> error + string"
  execSync_inherit :: "string \<Rightarrow> string \<Rightarrow> filesystem \<Rightarrow> filesystem \<times> error option"
  semver_lt :: "string \<Rightarrow> string \<Rightarrow> error + bool"
  semver_gte :: "string \<Rightarrow> string \<Rightarrow> error + bool"
  toml_parse :: "string \<Rightarrow> error + toml_document"
  toml_stringify :: "toml_document \<Rightarrow> string"
  YAML_parse :: "string \<Rightarrow> error + workflow"
  YAML_stringify :: "workflow \<Rightarrow> string"
  JSON_parse :: "string \<Rightarrow> error + manifest"
  JSON_stringify :: "manifest \<Rightarrow> string"

text \<open>
  The operations on files that the script starts: \<^verbatim>\<open>fs.writeFile\<close>,
  \<^verbatim>\<open>packageJson.save()\<close> (with the file of the manifest), \<^verbatim>\<open>fs.copyFile\<close> and \<^verbatim>\<open>fs.rm\<close>.
\<close>

datatype file_op =
  is_writeFile: writeFile string string
  | is_save: save string manifest
  | is_copyFile: copyFile string string
  | is_rm: rm string

definition readFile :: "filesystem \<Rightarrow> string \<Rightarrow> error + string" where
  "readFile fs filePath = (case fs filePath of None \<Rightarrow> Inl (ENOENT filePath) | Some s \<Rightarrow> Inr s)"

fun apply_op :: "env \<Rightarrow> file_op \<Rightarrow> filesystem \<Rightarrow> filesystem \<times> error option" where
  "apply_op env (writeFile p s) fs = (fs(p \<mapsto> s), None)"
| "apply_op env (save p m) fs = (fs(p \<mapsto> JSON_stringify env m), None)"
| "apply_op env (copyFile src dest) fs =
     (case fs src of None \<Rightarrow> (fs, Some (ENOENT src)) | Some s \<Rightarrow> (fs(dest \<mapsto> s), None))"
| "apply_op env (rm p) fs =
     (case fs p of None \<Rightarrow> (fs, Some (ENOENT p)) | Some s \<Rightarrow> (fs(p := None), None))"

text \<open>
  \<^verbatim>\<open>await Promise.all(fileOperationPromises)\<close>: every operation has been started and
  takes effect, whether or not another one fails; the error is that of the first one
  in the list that failed.
\<close>

fun run_ops :: "env \<Rightarrow> file_op list \<Rightarrow> filesystem \<Rightarrow> filesystem \<times> error option" where
  "run_ops env [] fs = (fs, None)"
| "run_ops env (x # xs) fs =
     (case apply_op env x fs of
        (fs1, e1) \<Rightarrow>
          (case run_ops env xs fs1 of
             (fs2, e2) \<Rightarrow> (fs2, case e1 of Some e \<Rightarrow> Some e | None \<Rightarrow> e2)))"

subsection \<open>The functions of the script\<close>

text \<open>
  \<^verbatim>\<open>cleanupDeployWorkflow\<close> changes the document in place and returns the write it has
  started; the model returns the changed document with it. Deleting a key of an
  undefined \<^verbatim>\<open>jobs\<close>, reading \<^verbatim>\<open>needs\<close> of an undefined job and calling \<^verbatim>\<open>filter\<close> on
  anything but a sequence raise a \<open>TypeError\<close>.
\<close>

definition cleanupDeployWorkflow ::
  "env \<Rightarrow> workflow \<Rightarrow> string \<Rightarrow> error + workflow \<times> file_op list" where
  "cleanupDeployWorkflow env deployWorkflow deployWorkflowPath =
     (case jobs deployWorkflow of
        None \<Rightarrow> Inl TypeError
      | Some js \<Rightarrow>
          (case (js(''typecheck'' := None)) ''deploy'' of
             None \<Rightarrow> Inl TypeError
           | Some deploy \<Rightarrow>
               (case needs deploy of
                  None \<Rightarrow> Inl TypeError
                | Some (NeedsScalar s) \<Rightarrow> Inl TypeError
                | Some (NeedsSeq ns) \<Rightarrow>
                    (let deployWorkflow' = deployWorkflow
                           \<lparr>jobs := Some (js(''typecheck'' := None,
                              ''deploy'' \<mapsto>
                                deploy\<lparr>needs :=
                                  Some (NeedsSeq (filter (\<lambda>need. need \<noteq> ''typecheck'') ns))\<rparr>))\<rparr>
                     in Inr (deployWorkflow',
                          [writeFile deployWorkflowPath (YAML_stringify env deployWorkflow')])))))"

definition cleanupVitestConfig :: "string \<Rightarrow> string \<Rightarrow> file_op list" where
  "cleanupVitestConfig vitestConfig vitestConfigPath =
     (let newVitestConfig = String_replace vitestConfig ''setup-test-env.ts'' ''setup-test-env.js''
      in [writeFile vitestConfigPath newVitestConfig])"

text \<open>
  The managers that have an entry in the table of \<^verbatim>\<open>getPackageManagerCommand\<close>, and
  the profile the entry returns. \<^verbatim>\<open>run\<close> takes the script and the arguments, which
  \<^verbatim>\<open>pm.run('dev')\<close> leaves undefined; an undefined or empty \<^verbatim>\<open>args\<close> is falsy.
\<close>

datatype package_manager = npm | pnpm | yarn

record profile =
  exec :: string
  lockfile :: string
  run :: "string \<Rightarrow> string option \<Rightarrow> string"

definition truthy :: "string option \<Rightarrow> bool" where
  "truthy args = (case args of None \<Rightarrow> False | Some a \<Rightarrow> a \<noteq> [])"

definition is_space :: "char \<Rightarrow> bool" where
  "is_space c = ((of_char c :: nat) \<in> {9, 10, 11, 12, 13, 32, 160})"

definition trim :: "string \<Rightarrow> string" where
  "trim s = rev (dropWhile is_space (rev (dropWhile is_space s)))"

definition getPackageManagerVersion :: "env \<Rightarrow> string \<Rightarrow> error + string" where
  "getPackageManagerVersion env packageManager =
     bind_result (execSync_stdout env (packageManager @ '' --version'')) (\<lambda>out. Inr (trim out))"

fun getPackageManagerCommand :: "env \<Rightarrow> package_manager \<Rightarrow> error + profile" where
  "getPackageManagerCommand env npm =
     Inr \<lparr>exec = ''npx'', lockfile = ''package-lock.json'',
          run = (\<lambda>script args.
            ''npm run '' @ script @ '' '' @ (if truthy args then ''-- '' @ the args else []))\<rparr>"
| "getPackageManagerCommand env pnpm =
     bind_result (getPackageManagerVersion env ''pnpm'') (\<lambda>pnpmVersion.
     bind_result (semver_lt env pnpmVersion ''7.0.0'') (\<lambda>includeDoubleDashBeforeArgs.
     bind_result (semver_gte env pnpmVersion ''6.13.0'') (\<lambda>useExec.
       Inr \<lparr>exec = (if useExec then ''pnpm exec'' else ''pnpx''),
            lockfile = ''pnpm-lock.yaml'',
            run = (\<lambda>script args.
              if includeDoubleDashBeforeArgs
              then ''pnpm run '' @ script @ '' '' @ (if truthy args then ''-- '' @ the args else [])
              else ''pnpm run '' @ script @ '' '' @ (if truthy args then the args else []))\<rparr>)))"
| "getPackageManagerCommand env yarn =
     Inr \<lparr>exec = ''yarn'', lockfile = ''yarn.lock'',
          run = (\<lambda>script args.
            ''yarn '' @ script @ '' '' @ (if truthy args then the args else []))\<rparr>"

text \<open>
  \<^verbatim>\<open>crypto.randomBytes(length).toString('hex')\<close>: \<open>len\<close> bytes of the entropy source,
  each written as two lower-case hexadecimal digits.
\<close>

definition randomBytes :: "env \<Rightarrow> nat \<Rightarrow> 8 word list" where
  "randomBytes env len = map (entropy env) [0..<len]"

definition hex_digit :: "nat \<Rightarrow> char" where
  "hex_digit n = ''0123456789abcdef'' ! (n mod 16)"

definition toString_hex :: "8 word list \<Rightarrow> string" where
  "toString_hex bytes =
     concat (map (\<lambda>b. [hex_digit (unat b div 16), hex_digit (unat b mod 16)]) bytes)"

definition getRandomString :: "env \<Rightarrow> nat \<Rightarrow> string" where
  "getRandomString env len = toString_hex (randomBytes env len)"

definition readFileIfNotTypeScript ::
  "bool \<Rightarrow> filesystem \<Rightarrow> string \<Rightarrow> (string \<Rightarrow> error + 'a) \<Rightarrow> error + 'a option" where
  "readFileIfNotTypeScript isTypeScript fs filePath parseFunction =
     (if isTypeScript then Inr None
      else bind_result (readFile fs filePath) (\<lambda>result.
           bind_result (parseFunction result) (\<lambda>parsed. Inr (Some parsed))))"

definition removeUnusedDependencies ::
  "(string \<rightharpoonup> string) \<Rightarrow> string list \<Rightarrow> (string \<rightharpoonup> string)" where
  "removeUnusedDependencies dependencies unusedDependencies =
     (\<lambda>key. if key \<in> set unusedDependencies then None else dependencies key)"

text \<open>
  \<^verbatim>\<open>packageJson.update\<close> of the package \<^verbatim>\<open>@npmcli/package-json\<close>, for the dependency
  map it is given: the map replaces the one of the manifest, and a map without
  entries is deleted from the manifest; given no map, the manifest keeps its own.
\<close>

definition update_dependencies ::
  "(string \<rightharpoonup> string) option \<Rightarrow> (string \<rightharpoonup> string) option \<Rightarrow> (string \<rightharpoonup> string) option" where
  "update_dependencies original given =
     (case given of
        None \<Rightarrow> original
      | Some deps \<Rightarrow> if deps = Map.empty then None else Some deps)"

text \<open>
  \<^verbatim>\<open>updatePackageJson\<close>. The destructuring takes \<^verbatim>\<open>typecheck\<close> and \<^verbatim>\<open>validate\<close> out of
  the scripts and keeps the rest; it raises a \<open>TypeError\<close> when there are no scripts, as
  do \<^verbatim>\<open>Object.entries\<close> of undefined dependencies and \<^verbatim>\<open>replace\<close> on an undefined
  \<^verbatim>\<open>validate\<close>. \<^verbatim>\<open>packageJson.update\<close> then sets the name, updates the dependency map
  as above and replaces the scripts; it raises a \<open>TypeError\<close> when the value of a script
  is not a string, which is the case for the typed variant when \<^verbatim>\<open>typecheck\<close> or
  \<^verbatim>\<open>validate\<close> is undefined.
\<close>

definition updatePackageJson :: "string \<Rightarrow> bool \<Rightarrow> manifest \<Rightarrow> error + manifest" where
  "updatePackageJson APP_NAME isTypeScript packageJson =
     (case scripts packageJson of
        None \<Rightarrow> Inl TypeError
      | Some all_scripts \<Rightarrow>
          (let typecheck = all_scripts ''typecheck'';
               validate = all_scripts ''validate'';
               rest = all_scripts(''typecheck'' := None, ''validate'' := None)
           in if isTypeScript then
                (if typecheck = None \<or> validate = None then Inl TypeError
                 else
                   Inr (packageJson\<lparr>name := Some APP_NAME,
                          devDependencies :=
                            update_dependencies (devDependencies packageJson)
                              (devDependencies packageJson),
                          scripts :=
                            Some (rest(''typecheck'' := typecheck, ''validate'' := validate))\<rparr>))
              else
                (case devDependencies packageJson of
                   None \<Rightarrow> Inl TypeError
                 | Some deps \<Rightarrow>
                     (case validate of
                        None \<Rightarrow> Inl TypeError
                      | Some v \<Rightarrow>
                          Inr (packageJson\<lparr>name := Some APP_NAME,
                                 devDependencies :=
                                   update_dependencies (devDependencies packageJson)
                                     (Some (removeUnusedDependencies deps [''ts-node''])),
                                 scripts := Some (rest(''validate'' \<mapsto>
                                   String_replace v '' typecheck'' []))\<rparr>)))))"

subsection \<open>main\<close>

record arguments =
  isTypeScript :: bool
  packageManager :: package_manager
  rootDirectory :: string

definition FILE_EXTENSION :: "arguments \<Rightarrow> string" where
  "FILE_EXTENSION a = (if isTypeScript a then ''ts'' else ''js'')"

definition README_PATH :: "env \<Rightarrow> arguments \<Rightarrow> string" where
  "README_PATH env a = path_join env [rootDirectory a, ''README.md'']"

definition FLY_TOML_PATH :: "env \<Rightarrow> arguments \<Rightarrow> string" where
  "FLY_TOML_PATH env a = path_join env [rootDirectory a, ''fly.toml'']"

definition DEPLOY_WORKFLOW_PATH :: "env \<Rightarrow> arguments \<Rightarrow> string" where
  "DEPLOY_WORKFLOW_PATH env a =
     path_join env [rootDirectory a, ''.github'', ''workflows'', ''deploy.yml'']"

definition DOCKERFILE_PATH :: "env \<Rightarrow> arguments \<Rightarrow> string" where
  "DOCKERFILE_PATH env a = path_join env [rootDirectory a, ''Dockerfile'']"

definition VITEST_CONFIG_PATH :: "env \<Rightarrow> arguments \<Rightarrow> string" where
  "VITEST_CONFIG_PATH env a =
     path_join env [rootDirectory a, ''vitest.config.'' @ FILE_EXTENSION a]"

definition REPLACER :: string where
  "REPLACER = ''symphonic-stack-template''"

definition DIR_NAME :: "env \<Rightarrow> arguments \<Rightarrow> string" where
  "DIR_NAME env a = path_basename env (rootDirectory a)"

definition SUFFIX :: "env \<Rightarrow> string" where
  "SUFFIX env = getRandomString env 2"

text \<open>
  \<^verbatim>\<open>(DIR_NAME + '-' + SUFFIX).replace(/[^a-zA-Z0-9-_]/g, '-')\<close>: in the class, the
  hyphen after the range \<^verbatim>\<open>0-9\<close> and the underscore are single characters.
\<close>

definition APP_NAME :: "env \<Rightarrow> arguments \<Rightarrow> string" where
  "APP_NAME env a =
     RegExp_replace (DIR_NAME env a @ ''-'' @ SUFFIX env)
       [Class True
          [Range CHR ''a'' CHR ''z'', Range CHR ''A'' CHR ''Z'', Range CHR ''0'' CHR ''9'',
           Single CHR ''-'', Single CHR ''_'']]
       ''-''"

text \<open>
  What the first \<^verbatim>\<open>Promise.all\<close> returns. The workflow and the test configuration are
  undefined for the typed variant.
\<close>

record files =
  prodContent :: string
  readme :: string
  dockerfile :: string
  deployWorkflow :: "workflow option"
  vitestConfig :: "string option"
  packageJson :: manifest

definition PackageJson_load :: "env \<Rightarrow> filesystem \<Rightarrow> string \<Rightarrow> error + manifest" where
  "PackageJson_load env fs dir =
     bind_result (readFile fs (path_join env [dir, ''package.json''])) (JSON_parse env)"

text \<open>
  The six reads are awaited together; when several fail, the model reports the first
  of the list.
\<close>

definition read_all :: "env \<Rightarrow> arguments \<Rightarrow> filesystem \<Rightarrow> error + files" where
  "read_all env a fs =
     bind_result (readFile fs (FLY_TOML_PATH env a)) (\<lambda>r1.
     bind_result (readFile fs (README_PATH env a)) (\<lambda>r2.
     bind_result (readFile fs (DOCKERFILE_PATH env a)) (\<lambda>r3.
     bind_result (readFileIfNotTypeScript (isTypeScript a) fs (DEPLOY_WORKFLOW_PATH env a)
                    (YAML_parse env)) (\<lambda>r4.
     bind_result (readFileIfNotTypeScript (isTypeScript a) fs (VITEST_CONFIG_PATH env a) Inr) (\<lambda>r5.
     bind_result (PackageJson_load env fs (rootDirectory a)) (\<lambda>r6.
       Inr \<lparr>prodContent = r1, readme = r2, dockerfile = r3, deployWorkflow = r4,
            vitestConfig = r5, packageJson = r6\<rparr>))))))"

text \<open>
  \<^verbatim>\<open>toml.parse(prodContent)\<close>, then
  \<^verbatim>\<open>prodToml.app = prodToml.app.replace(REPLACER, APP_NAME)\<close>.
\<close>

definition prodToml :: "env \<Rightarrow> string \<Rightarrow> string \<Rightarrow> error + toml_document" where
  "prodToml env content app_name =
     bind_result (toml_parse env content) (\<lambda>doc.
       case doc ''app'' of
         Some (TomlString app) \<Rightarrow>
           Inr (doc(''app'' \<mapsto> TomlString (String_replace app REPLACER app_name)))
       | _ \<Rightarrow> Inl TypeError)"

definition newReadme :: "string \<Rightarrow> string \<Rightarrow> error + string" where
  "newReadme text app_name =
     bind_result (RegExp (escapeRegExp REPLACER)) (\<lambda>re. Inr (RegExp_replace text re app_name))"

definition newDockerfile :: "profile \<Rightarrow> string \<Rightarrow> error + string" where
  "newDockerfile pm text =
     (if lockfile pm \<noteq> [] then
        bind_result (RegExp (escapeRegExp ''ADD package.json'')) (\<lambda>re.
          Inr (RegExp_replace text re (''ADD package.json '' @ lockfile pm)))
      else Inr text)"

text \<open>The array \<^verbatim>\<open>fileOperationPromises\<close> as the array literal builds it.\<close>

definition fileOperationPromises ::
  "env \<Rightarrow> arguments \<Rightarrow> toml_document \<Rightarrow> string \<Rightarrow> string \<Rightarrow> manifest \<Rightarrow> file_op list" where
  "fileOperationPromises env a toml_doc readme_text dockerfile_text pkg =
     [writeFile (FLY_TOML_PATH env a) (toml_stringify env toml_doc),
      writeFile (README_PATH env a) readme_text,
      writeFile (DOCKERFILE_PATH env a) dockerfile_text,
      save (path_join env [rootDirectory a, ''package.json'']) pkg,
      copyFile (path_join env [rootDirectory a, ''remix.init'', ''gitignore''])
        (path_join env [rootDirectory a, ''.gitignore'']),
      rm (path_join env [rootDirectory a, ''.github'', ''dependabot.yml''])]"

text \<open>
  The block \<^verbatim>\<open>if (!isTypeScript) { ... }\<close>: the operations it pushes. The two files
  are defined whenever the variant is untyped, since the read phase has read them.
\<close>

definition pushed_operations :: "env \<Rightarrow> arguments \<Rightarrow> files \<Rightarrow> error + file_op list" where
  "pushed_operations env a f =
     (if \<not> isTypeScript a then
        (case deployWorkflow f of
           None \<Rightarrow> Inl TypeError
         | Some w \<Rightarrow>
             bind_result (cleanupDeployWorkflow env w (DEPLOY_WORKFLOW_PATH env a)) (\<lambda>(w', ops1).
               case vitestConfig f of
                 None \<Rightarrow> Inl TypeError
               | Some v \<Rightarrow> Inr (ops1 @ cleanupVitestConfig v (VITEST_CONFIG_PATH env a))))
      else Inr [])"

text \<open>
  A run of \<^verbatim>\<open>main\<close> on a file system: the file system it leaves, the file operations
  it has started, in the order of \<^verbatim>\<open>fileOperationPromises\<close>, and either the error it
  rejects with or the command that the closing message names.

  Every step before the array literal can raise, and nothing has been written then.
  When \<^verbatim>\<open>cleanupDeployWorkflow\<close> raises, the six operations of the array literal have
  been started; the model lets them take effect. The formatter is an external
  process that may change files.
\<close>

record run_result =
  files_after :: filesystem
  started :: "file_op list"
  outcome :: "error + string"

definition aborted :: "filesystem \<Rightarrow> error \<Rightarrow> run_result" where
  "aborted fs e = \<lparr>files_after = fs, started = [], outcome = Inl e\<rparr>"

definition main :: "env \<Rightarrow> arguments \<Rightarrow> filesystem \<Rightarrow> run_result" where
  "main env a fs =
     (case getPackageManagerCommand env (packageManager a) of
        Inl e \<Rightarrow> aborted fs e
      | Inr pm \<Rightarrow>
     (case read_all env a fs of
        Inl e \<Rightarrow> aborted fs e
      | Inr f \<Rightarrow>
     (case prodToml env (prodContent f) (APP_NAME env a) of
        Inl e \<Rightarrow> aborted fs e
      | Inr toml_doc \<Rightarrow>
     (case newReadme (readme f) (APP_NAME env a) of
        Inl e \<Rightarrow> aborted fs e
      | Inr readme_text \<Rightarrow>
     (case newDockerfile pm (dockerfile f) of
        Inl e \<Rightarrow> aborted fs e
      | Inr dockerfile_text \<Rightarrow>
     (case updatePackageJson (APP_NAME env a) (isTypeScript a) (packageJson f) of
        Inl e \<Rightarrow> aborted fs e
      | Inr pkg \<Rightarrow>
     (let ops = fileOperationPromises env a toml_doc readme_text dockerfile_text pkg in
      case pushed_operations env a f of
        Inl e \<Rightarrow> \<lparr>files_after = fst (run_ops env ops fs), started = ops, outcome = Inl e\<rparr>
      | Inr pushed \<Rightarrow>
          (case run_ops env (ops @ pushed) fs of
             (fs1, Some e) \<Rightarrow> \<lparr>files_after = fs1, started = ops @ pushed, outcome = Inl e\<rparr>
           | (fs1, None) \<Rightarrow>
               (case execSync_inherit env (run pm ''format'' (Some ''--loglevel warn''))
                       (rootDirectory a) fs1 of
                  (fs2, Some e) \<Rightarrow>
                    \<lparr>files_after = fs2, started = ops @ pushed, outcome = Inl e\<rparr>
                | (fs2, None) \<Rightarrow>
                    \<lparr>files_after = fs2, started = ops @ pushed,
                     outcome = Inr (run pm ''dev'' None)\<rparr>)))))))))"

subsection \<open>Notions of the specification\<close>

text \<open>The parts of a text, with a separator between each two of them.\<close>

definition join :: "string \<Rightarrow> string list \<Rightarrow> string" where
  "join sep parts = (case parts of [] \<Rightarrow> [] | p # ps \<Rightarrow> p @ concat (map (\<lambda>q. sep @ q) ps))"

text \<open>The characters of an application name: ASCII letters, digits, hyphen, underscore.\<close>

definition allowed_character :: "char \<Rightarrow> bool" where
  "allowed_character c =
     (c \<in> set ''abcdefghijklmnopqrstuvwxyzABCDEFGHIJKLMNOPQRSTUVWXYZ0123456789-_'')"

definition hexadecimal :: "char \<Rightarrow> bool" where
  "hexadecimal c = (c \<in> set ''0123456789abcdef'')"

text \<open>How each manager is invoked to run a script.\<close>

fun invocation_prefix :: "package_manager \<Rightarrow> string" where
  "invocation_prefix npm = ''npm run''"
| "invocation_prefix pnpm = ''pnpm run''"
| "invocation_prefix yarn = ''yarn''"

text \<open>The script of a manifest under a key, if it has one.\<close>

definition script_of :: "string \<Rightarrow> manifest \<Rightarrow> string option" where
  "script_of key m = (case scripts m of None \<Rightarrow> None | Some sc \<Rightarrow> sc key)"

subsection \<open>An example project\<close>

text \<open>
  An environment to run the model in: paths are joined with a slash, the base name is
  the last segment, the random bytes are \<open>ab\<close> and \<open>12\<close>, the installed pnpm answers
  \<open>6.32.3\<close>, versions are three numbers compared in order, the formatter changes
  nothing, and the parsers know the three documents of the example.
\<close>

definition example_basename :: "string \<Rightarrow> string" where
  "example_basename p =
     rev (takeWhile (\<lambda>c. c \<noteq> CHR ''/'') (dropWhile (\<lambda>c. c = CHR ''/'') (rev p)))"

fun fields :: "string \<Rightarrow> string list" where
  "fields [] = [[]]"
| "fields (c # cs) =
     (if c = CHR ''.'' then [] # fields cs
      else (case fields cs of [] \<Rightarrow> [[c]] | f # fs \<Rightarrow> (c # f) # fs))"

fun number :: "nat \<Rightarrow> string \<Rightarrow> nat option" where
  "number n [] = Some n"
| "number n (c # cs) =
     (if 48 \<le> (of_char c :: nat) \<and> (of_char c :: nat) \<le> 57
      then number (10 * n + (of_char c - 48)) cs else None)"

definition example_version :: "string \<Rightarrow> error + nat \<times> nat \<times> nat" where
  "example_version v =
     (case map (number 0) (fields v) of
        [Some major, Some minor, Some patch] \<Rightarrow> Inr (major, minor, patch)
      | _ \<Rightarrow> Inl (Failure (''Invalid Version: '' @ v)))"

definition example_lt :: "string \<Rightarrow> string \<Rightarrow> error + bool" where
  "example_lt v w =
     bind_result (example_version v) (\<lambda>(a, b, c).
     bind_result (example_version w) (\<lambda>(x, y, z).
       Inr (a < x \<or> (a = x \<and> (b < y \<or> (b = y \<and> c < z))))))"

definition example_gte :: "string \<Rightarrow> string \<Rightarrow> error + bool" where
  "example_gte v w = bind_result (example_lt v w) (\<lambda>r. Inr (\<not> r))"

definition quoted :: "string \<Rightarrow> string" where
  "quoted s = CHR 0x22 # s @ [CHR 0x22]"

definition example_fly_toml :: string where
  "example_fly_toml = ''app = '' @ quoted ''symphonic-stack-template''"

definition example_toml_document :: toml_document where
  "example_toml_document = [''app'' \<mapsto> TomlString ''symphonic-stack-template'']"

definition example_deploy_yml :: string where
  "example_deploy_yml = ''jobs: {typecheck: {}, deploy: {needs: [lint, typecheck]}}''"

definition example_workflow :: workflow where
  "example_workflow =
     \<lparr>jobs = Some [''typecheck'' \<mapsto> \<lparr>needs = None\<rparr>,
                   ''deploy'' \<mapsto> \<lparr>needs = Some (NeedsSeq [''lint'', ''typecheck''])\<rparr>]\<rparr>"

definition example_package_json :: string where
  "example_package_json = ''{'' @ quoted ''name'' @ '': '' @ quoted ''symphonic-stack-template'' @ ''}''"

definition example_manifest :: manifest where
  "example_manifest =
     \<lparr>name = Some ''symphonic-stack-template'',
      devDependencies = Some [''ts-node'' \<mapsto> ''^10.9.1'', ''typescript'' \<mapsto> ''^4.8.4''],
      scripts = Some [''lint'' \<mapsto> ''eslint .'', ''typecheck'' \<mapsto> ''tsc'',
                      ''validate'' \<mapsto> ''run-p lint typecheck'']\<rparr>"

definition example_env :: env where
  "example_env =
     \<lparr>path_join = join ''/'',
      path_basename = example_basename,
      entropy = (\<lambda>i. if i = 0 then 0xab else 0x12),
      execSync_stdout = (\<lambda>command.
        if command = ''pnpm --version'' then Inr (''6.32.3'' @ [CHR 0x0A])
        else Inl (Failure command)),
      execSync_inherit = (\<lambda>command cwd fs. (fs, None)),
      semver_lt = example_lt,
      semver_gte = example_gte,
      toml_parse = (\<lambda>s. if s = example_fly_toml then Inr example_toml_document
                          else Inl (Failure ''toml'')),
      toml_stringify = (\<lambda>doc. case doc ''app'' of
                          Some (TomlString s) \<Rightarrow> ''app = '' @ quoted s | _ \<Rightarrow> []),
      YAML_parse = (\<lambda>s. if s = example_deploy_yml then Inr example_workflow
                          else Inl (Failure ''yaml'')),
      YAML_stringify = (\<lambda>w. case jobs w of
                          None \<Rightarrow> [] | Some js \<Rightarrow>
                            (case js ''deploy'' of
                               None \<Rightarrow> []
                             | Some d \<Rightarrow>
                                 (case needs d of
                                    Some (NeedsSeq ns) \<Rightarrow> ''deploy needs '' @ join '', '' ns
                                  | _ \<Rightarrow> []))),
      JSON_parse = (\<lambda>s. if s = example_package_json then Inr example_manifest
                          else Inl (Failure ''json'')),
      JSON_stringify = (\<lambda>m. case name m of Some n \<Rightarrow> quoted n | None \<Rightarrow> [])\<rparr>"

definition example_arguments :: arguments where
  "example_arguments =
     \<lparr>isTypeScript = False, packageManager = pnpm, rootDirectory = ''/srv/my blog''\<rparr>"

definition example_filesystem :: filesystem where
  "example_filesystem =
     [''/srv/my blog/fly.toml'' \<mapsto> example_fly_toml,
      ''/srv/my blog/README.md'' \<mapsto> ''# symphonic-stack-template'',
      ''/srv/my blog/Dockerfile'' \<mapsto> ''ADD package.json ./'',
      ''/srv/my blog/.github/workflows/deploy.yml'' \<mapsto> example_deploy_yml,
      ''/srv/my blog/vitest.config.js'' \<mapsto> ''setupFiles: ./test/setup-test-env.ts'',
      ''/srv/my blog/package.json'' \<mapsto> example_package_json,
      ''/srv/my blog/remix.init/gitignore'' \<mapsto> ''node_modules'',
      ''/srv/my blog/.github/dependabot.yml'' \<mapsto> ''version: 2'']"

text \<open>A manifest whose \<^verbatim>\<open>validate\<close> script names two type-checking scripts, and one
  without development dependencies.\<close>

definition manifest_two_typechecks :: manifest where
  "manifest_two_typechecks =
     \<lparr>name = Some ''symphonic-stack-template'',
      devDependencies = Some [''ts-node'' \<mapsto> ''^10.9.1''],
      scripts = Some [''typecheck'' \<mapsto> ''tsc'', ''typecheck:e2e'' \<mapsto> ''tsc -p e2e'',
                      ''validate'' \<mapsto> ''run-p lint typecheck typecheck:e2e'']\<rparr>"

definition manifest_no_devDependencies :: manifest where
  "manifest_no_devDependencies =
     \<lparr>name = Some ''symphonic-stack-template'',
      devDependencies = None,
      scripts = Some [''typecheck'' \<mapsto> ''tsc'', ''validate'' \<mapsto> ''run-p lint typecheck'']\<rparr>"

section \<open>Properties\<close>

subsection \<open>Substitution and regular expressions\<close>

lemma GetSubstitution_plain:
  "CHR ''$'' \<notin> set tpl \<Longrightarrow> GetSubstitution matched pre post tpl = tpl"
  by (induction matched pre post tpl rule: GetSubstitution.induct) auto

lemma replace_all_from_one_atom:
  "CHR ''$'' \<notin> set tpl \<Longrightarrow>
   replace_all_from pre s [a] tpl = concat (map (\<lambda>c. if atom_matches a c then tpl else [c]) s)"
  by (induction s arbitrary: pre) (simp_all add: GetSubstitution_plain)

lemma replace_all_from_escape:
  "replace_all_from pre s [a] [CHR 0x5C, CHR ''$'', CHR ''&''] =
   concat (map (\<lambda>c. if atom_matches a c then [CHR 0x5C, c] else [c]) s)"
  by (induction s arbitrary: pre) simp_all

lemma escapeRegExp_eq:
  "escapeRegExp s = concat (map (\<lambda>c. if SyntaxCharacter c then [CHR 0x5C, c] else [c]) s)"
proof -
  have "atom_matches (Class False
          [Single CHR ''.'', Single CHR ''*'', Single CHR ''+'', Single CHR ''?'',
           Single CHR ''^'', Single CHR ''$'', Single CHR ''{'', Single CHR ''}'',
           Single CHR ''('', Single CHR '')'', Single CHR ''|'', Single CHR ''['',
           Single CHR '']'', Single CHR 0x5C]) c = SyntaxCharacter c" for c
    by (auto simp: SyntaxCharacter_def)
  then show ?thesis
    by (simp add: escapeRegExp_def RegExp_replace_def replace_all_from_escape
        del: atom_matches.simps)
qed

lemma RegExp_escaped:
  "RegExp (concat (map (\<lambda>c. if SyntaxCharacter c then [CHR 0x5C, c] else [c]) s)) =
   Inr (map Chr s)"
proof (induction s)
  case Nil
  show ?case by simp
next
  case (Cons c s)
  show ?case
  proof (cases "SyntaxCharacter c")
    case True
    then show ?thesis using Cons by (simp add: bind_result_def)
  next
    case False
    then have nb: "c \<noteq> CHR 0x5C" by (auto simp: SyntaxCharacter_def)
    show ?thesis
    proof (cases "concat (map (\<lambda>c. if SyntaxCharacter c then [CHR 0x5C, c] else [c]) s)")
      case Nil
      then have "s = []" by (cases s) (auto split: if_splits)
      with False show ?thesis by simp
    next
      case (Cons d t)
      with False nb Cons.IH show ?thesis by (simp add: bind_result_def)
    qed
  qed
qed

text \<open>The expression built from an escaped text matches that text, character by
  character, whatever the text.\<close>

lemma RegExp_escapeRegExp: "RegExp (escapeRegExp s) = Inr (map Chr s)"
  by (simp add: escapeRegExp_eq RegExp_escaped)

lemma matches_at_literal: "matches_at (map Chr lit) s = prefix lit s"
proof (induction lit arbitrary: s)
  case Nil
  show ?case by simp
next
  case (Cons x lit)
  then show ?case by (cases s) auto
qed

text \<open>A pattern that is not in the text before its own end: no proper suffix of the
  pattern is a prefix of it, and the text before does not contain it.\<close>

lemma no_early_match:
  assumes border: "\<And>j. 0 < j \<Longrightarrow> j < length pat \<Longrightarrow> drop j pat \<noteq> take (length pat - j) pat"
    and absent: "\<not> sublist pat p" and k: "k < length p"
  shows "\<not> prefix pat (drop k p @ pat @ rest)"
proof
  assume pre: "prefix pat (drop k p @ pat @ rest)"
  define q where "q = drop k p"
  have q: "q \<noteq> []" using k by (simp add: q_def)
  have nq: "\<not> sublist pat q"
  proof
    assume "sublist pat q"
    then obtain u v where "q = u @ pat @ v" by (auto simp: sublist_def)
    then have "p = (take k p @ u) @ pat @ v"
      using append_take_drop_id[of k p] by (simp add: q_def)
    then have "sublist pat p" unfolding sublist_def by blast
    with absent show False ..
  qed
  from pre obtain r where "q @ pat @ rest = pat @ r"
    by (auto simp: prefix_def q_def)
  then have t: "take (length pat) (q @ pat @ rest) = pat" by simp
  show False
  proof (cases "length pat \<le> length q")
    case True
    with t have "take (length pat) q = pat" by simp
    then have "q = pat @ drop (length pat) q" by (metis append_take_drop_id)
    then have "sublist pat q" by (metis sublist_append_rightI)
    with nq show False ..
  next
    case False
    then have l: "length q < length pat" by simp
    with t have "q @ take (length pat - length q) pat = pat" by simp
    then have "drop (length q) (q @ take (length pat - length q) pat) = drop (length q) pat"
      by simp
    then have "take (length pat - length q) pat = drop (length q) pat" by simp
    moreover have "0 < length q" using q by simp
    ultimately show False using border[of "length q"] l by simp
  qed
qed

lemma replace_literal_none:
  "lit \<noteq> [] \<Longrightarrow> \<not> sublist lit s \<Longrightarrow> replace_all_from pre s (map Chr lit) tpl = s"
proof (induction s arbitrary: pre)
  case Nil
  then show ?case by (simp add: matches_at_literal)
next
  case (Cons c s)
  then show ?case by (simp add: matches_at_literal sublist_Cons_right)
qed

lemma replace_literal_first:
  assumes "lit \<noteq> []" and "CHR ''$'' \<notin> set tpl"
    and "\<forall>k<length p. \<not> prefix lit (drop k p @ lit @ rest)"
  shows "replace_all_from pre (p @ lit @ rest) (map Chr lit) tpl =
         p @ tpl @ replace_all_from (pre @ p @ lit) rest (map Chr lit) tpl"
  using assms(3)
proof (induction p arbitrary: pre)
  case Nil
  from assms(1) obtain x xs where lit: "lit = x # xs" by (cases lit) auto
  have m: "matches_at (map Chr lit) (x # xs @ rest)"
    using matches_at_literal[of lit "lit @ rest"] by (simp add: lit)
  have "replace_all_from pre (x # xs @ rest) (map Chr lit) tpl =
        tpl @ replace_all_from (pre @ lit) rest (map Chr lit) tpl"
    using m assms(2) by (simp add: lit GetSubstitution_plain del: matches_at.simps)
  then show ?case by (simp add: lit)
next
  case (Cons c p)
  have "\<not> prefix lit ((c # p) @ lit @ rest)"
    using Cons.prems by (auto dest: spec[of _ 0])
  moreover have "\<forall>k<length p. \<not> prefix lit (drop k p @ lit @ rest)"
    using Cons.prems by (auto dest: spec[of _ "Suc k" for k])
  ultimately show ?case using Cons.IH[of "pre @ [c]"] by (simp add: matches_at_literal)
qed

lemma replace_from_none:
  "pat \<noteq> [] \<Longrightarrow> \<not> sublist pat s \<Longrightarrow> replace_from pre s pat tpl = pre @ s"
  by (induction s arbitrary: pre) (simp_all add: sublist_Cons_right)

lemma replace_from_first:
  assumes "pat \<noteq> []" and "\<forall>k<length p. \<not> prefix pat (drop k p @ pat @ rest)"
  shows "replace_from pre (p @ pat @ rest) pat tpl =
         pre @ p @ GetSubstitution pat (pre @ p) rest tpl @ rest"
  using assms(2)
proof (induction p arbitrary: pre)
  case Nil
  from assms(1) obtain x xs where pat: "pat = x # xs" by (cases pat) auto
  show ?case by (simp add: pat)
next
  case (Cons c p)
  have "\<not> prefix pat ((c # p) @ pat @ rest)"
    using Cons.prems by (auto dest: spec[of _ 0])
  moreover have "\<forall>k<length p. \<not> prefix pat (drop k p @ pat @ rest)"
    using Cons.prems by (auto dest: spec[of _ "Suc k" for k])
  ultimately show ?case using Cons.IH[of "pre @ [c]"] by simp
qed

lemma join_Cons2: "join sep (p # q # ps) = p @ sep @ join sep (q # ps)"
  by (simp add: join_def)

lemma join_single: "join sep [p] = p"
  by (simp add: join_def)

lemma join_append:
  "xs \<noteq> [] \<Longrightarrow> ys \<noteq> [] \<Longrightarrow> join sep (xs @ ys) = join sep xs @ sep @ join sep ys"
  by (cases xs; cases ys) (simp_all add: join_def)

subsection \<open>The placeholder\<close>

lemma REPLACER_length: "length REPLACER = 24"
  by (simp add: REPLACER_def)

lemma REPLACER_no_border:
  assumes "0 < j" and "j < length REPLACER"
  shows "drop j REPLACER \<noteq> take (length REPLACER - j) REPLACER"
proof -
  have "list_all (\<lambda>j. drop j REPLACER \<noteq> take (24 - j) REPLACER) [1..<24]"
    by code_simp
  with assms show ?thesis
    by (simp add: list_all_iff REPLACER_length)
qed

lemma replace_REPLACER_join:
  assumes "CHR ''$'' \<notin> set tpl"
  shows "\<forall>p \<in> set (p0 # ps). \<not> sublist REPLACER p \<Longrightarrow>
         replace_all_from pre (join REPLACER (p0 # ps)) (map Chr REPLACER) tpl =
         join tpl (p0 # ps)"
proof (induction ps arbitrary: p0 pre)
  case Nil
  then show ?case
    using replace_literal_none[of REPLACER p0 pre tpl] by (simp add: join_single REPLACER_def)
next
  case (Cons p1 ps)
  have ne: "REPLACER \<noteq> []" by (simp add: REPLACER_def)
  have first: "\<forall>k<length p0. \<not> prefix REPLACER (drop k p0 @ REPLACER @ join REPLACER (p1 # ps))"
    using Cons.prems no_early_match[OF REPLACER_no_border] by simp
  have "replace_all_from pre (p0 @ REPLACER @ join REPLACER (p1 # ps)) (map Chr REPLACER) tpl =
        p0 @ tpl @ replace_all_from (pre @ p0 @ REPLACER) (join REPLACER (p1 # ps))
                     (map Chr REPLACER) tpl"
    using ne assms first by (rule replace_literal_first)
  moreover have "replace_all_from (pre @ p0 @ REPLACER) (join REPLACER (p1 # ps))
                   (map Chr REPLACER) tpl = join tpl (p1 # ps)"
    using Cons.prems by (intro Cons.IH) simp
  ultimately show ?case by (simp add: join_Cons2)
qed

text \<open>Every text is made of parts without the placeholder, with the placeholder
  between them.\<close>

lemma placeholder_parts_exist:
  "\<exists>parts. parts \<noteq> [] \<and> s = join REPLACER parts \<and> (\<forall>p \<in> set parts. \<not> sublist REPLACER p)"
proof (induction s rule: length_induct)
  case (1 s)
  show ?case
  proof (cases "sublist REPLACER s")
    case False
    then have "[s] \<noteq> [] \<and> s = join REPLACER [s] \<and> (\<forall>p \<in> set [s]. \<not> sublist REPLACER p)"
      by (simp add: join_single)
    then show ?thesis by blast
  next
    case True
    then obtain u v where uv: "s = u @ REPLACER @ v" by (auto simp: sublist_def)
    then have "length u < length s" "length v < length s" by (simp_all add: REPLACER_length)
    with 1 obtain us vs where
      us: "us \<noteq> []" "u = join REPLACER us" "\<forall>p \<in> set us. \<not> sublist REPLACER p" and
      vs: "vs \<noteq> []" "v = join REPLACER vs" "\<forall>p \<in> set vs. \<not> sublist REPLACER p"
      by metis
    then have "us @ vs \<noteq> [] \<and> s = join REPLACER (us @ vs) \<and>
               (\<forall>p \<in> set (us @ vs). \<not> sublist REPLACER p)"
      by (auto simp: join_append uv)
    then show ?thesis by blast
  qed
qed

subsection \<open>The application name\<close>

lemma in_range_cases: "lo \<le> n \<Longrightarrow> n \<le> hi \<Longrightarrow> (n::nat) \<in> set [lo..<Suc hi]"
  by auto

lemma lower_case:
  assumes "97 \<le> (of_char c :: nat)" and "(of_char c :: nat) \<le> 122"
  shows "c \<in> set ''abcdefghijklmnopqrstuvwxyz''"
proof -
  have "(of_char c :: nat) \<in> set [97..<Suc 122]" using assms by (rule in_range_cases)
  then have "char_of (of_char c :: nat) \<in> char_of ` set [97..<Suc 122 :: nat]" by (rule imageI)
  then have "c \<in> set (map char_of [97..<Suc 122 :: nat])" by simp
  also have "map char_of [97..<Suc 122 :: nat] = ''abcdefghijklmnopqrstuvwxyz''" by code_simp
  finally show ?thesis .
qed

lemma upper_case:
  assumes "65 \<le> (of_char c :: nat)" and "(of_char c :: nat) \<le> 90"
  shows "c \<in> set ''ABCDEFGHIJKLMNOPQRSTUVWXYZ''"
proof -
  have "(of_char c :: nat) \<in> set [65..<Suc 90]" using assms by (rule in_range_cases)
  then have "char_of (of_char c :: nat) \<in> char_of ` set [65..<Suc 90 :: nat]" by (rule imageI)
  then have "c \<in> set (map char_of [65..<Suc 90 :: nat])" by simp
  also have "map char_of [65..<Suc 90 :: nat] = ''ABCDEFGHIJKLMNOPQRSTUVWXYZ''" by code_simp
  finally show ?thesis .
qed

lemma digit:
  assumes "48 \<le> (of_char c :: nat)" and "(of_char c :: nat) \<le> 57"
  shows "c \<in> set ''0123456789''"
proof -
  have "(of_char c :: nat) \<in> set [48..<Suc 57]" using assms by (rule in_range_cases)
  then have "char_of (of_char c :: nat) \<in> char_of ` set [48..<Suc 57 :: nat]" by (rule imageI)
  then have "c \<in> set (map char_of [48..<Suc 57 :: nat])" by simp
  also have "map char_of [48..<Suc 57 :: nat] = ''0123456789''" by code_simp
  finally show ?thesis .
qed

lemma lower_case_iff:
  "(97 \<le> (of_char c :: nat) \<and> (of_char c :: nat) \<le> 122) =
   (c \<in> set ''abcdefghijklmnopqrstuvwxyz'')"
proof -
  have "list_all (\<lambda>c. 97 \<le> (of_char c :: nat) \<and> (of_char c :: nat) \<le> 122)
          ''abcdefghijklmnopqrstuvwxyz''"
    by code_simp
  then show ?thesis using lower_case[of c] unfolding list_all_iff by blast
qed

lemma upper_case_iff:
  "(65 \<le> (of_char c :: nat) \<and> (of_char c :: nat) \<le> 90) =
   (c \<in> set ''ABCDEFGHIJKLMNOPQRSTUVWXYZ'')"
proof -
  have "list_all (\<lambda>c. 65 \<le> (of_char c :: nat) \<and> (of_char c :: nat) \<le> 90)
          ''ABCDEFGHIJKLMNOPQRSTUVWXYZ''"
    by code_simp
  then show ?thesis using upper_case[of c] unfolding list_all_iff by blast
qed

lemma digit_iff:
  "(48 \<le> (of_char c :: nat) \<and> (of_char c :: nat) \<le> 57) = (c \<in> set ''0123456789'')"
proof -
  have "list_all (\<lambda>c. 48 \<le> (of_char c :: nat) \<and> (of_char c :: nat) \<le> 57) ''0123456789''"
    by code_simp
  then show ?thesis using digit[of c] unfolding list_all_iff by blast
qed

lemma allowed_character_split:
  "allowed_character c =
     (c \<in> set ''abcdefghijklmnopqrstuvwxyz'' \<or> c \<in> set ''ABCDEFGHIJKLMNOPQRSTUVWXYZ''
      \<or> c \<in> set ''0123456789'' \<or> c = CHR ''-'' \<or> c = CHR ''_'')"
proof -
  have "''abcdefghijklmnopqrstuvwxyzABCDEFGHIJKLMNOPQRSTUVWXYZ0123456789-_'' =
        ''abcdefghijklmnopqrstuvwxyz'' @ ''ABCDEFGHIJKLMNOPQRSTUVWXYZ'' @ ''0123456789'' @ ''-_''"
    by simp
  then have "allowed_character c =
      (c \<in> set (''abcdefghijklmnopqrstuvwxyz'' @ ''ABCDEFGHIJKLMNOPQRSTUVWXYZ''
                  @ ''0123456789'' @ ''-_''))"
    unfolding allowed_character_def by (rule arg_cong)
  also have "\<dots> =
      (c \<in> set ''abcdefghijklmnopqrstuvwxyz'' \<or> c \<in> set ''ABCDEFGHIJKLMNOPQRSTUVWXYZ''
       \<or> c \<in> set ''0123456789'' \<or> c = CHR ''-'' \<or> c = CHR ''_'')"
    unfolding set_append Un_iff by simp
  finally show ?thesis .
qed

text \<open>The class \<^verbatim>\<open>[^a-zA-Z0-9-_]\<close> matches the characters that are not allowed.\<close>

lemma class_is_not_allowed:
  "atom_matches (Class True
          [Range CHR ''a'' CHR ''z'', Range CHR ''A'' CHR ''Z'', Range CHR ''0'' CHR ''9'',
           Single CHR ''-'', Single CHR ''_'']) c = (\<not> allowed_character c)"
proof -
  have "(\<exists>i \<in> set [Range CHR ''a'' CHR ''z'', Range CHR ''A'' CHR ''Z'',
                     Range CHR ''0'' CHR ''9'', Single CHR ''-'', Single CHR ''_''].
           item_matches i c) =
        ((97 \<le> (of_char c :: nat) \<and> (of_char c :: nat) \<le> 122) \<or>
         (65 \<le> (of_char c :: nat) \<and> (of_char c :: nat) \<le> 90) \<or>
         (48 \<le> (of_char c :: nat) \<and> (of_char c :: nat) \<le> 57) \<or>
         c = CHR ''-'' \<or> c = CHR ''_'')"
    by simp
  then show ?thesis
    unfolding lower_case_iff upper_case_iff digit_iff allowed_character_split atom_matches.simps
    by simp
qed

lemma APP_NAME_eq:
  "APP_NAME env a =
   map (\<lambda>c. if allowed_character c then c else CHR ''-'') (DIR_NAME env a @ ''-'' @ SUFFIX env)"
proof -
  have "concat (map (\<lambda>c. if \<not> allowed_character c then ''-'' else [c]) s) =
        map (\<lambda>c. if allowed_character c then c else CHR ''-'') s" for s
    by (induction s) simp_all
  then show ?thesis
    unfolding APP_NAME_def RegExp_replace_def
    by (simp add: replace_all_from_one_atom class_is_not_allowed del: atom_matches.simps)
qed

lemma hyphen_allowed: "allowed_character CHR ''-''"
  by (simp add: allowed_character_def)

lemma APP_NAME_allowed: "c \<in> set (APP_NAME env a) \<Longrightarrow> allowed_character c"
  by (auto simp: APP_NAME_eq hyphen_allowed)

lemma APP_NAME_no_dollar: "CHR ''$'' \<notin> set (APP_NAME env a)"
proof
  assume "CHR ''$'' \<in> set (APP_NAME env a)"
  then have "allowed_character CHR ''$''" by (rule APP_NAME_allowed)
  then show False by (simp add: allowed_character_def)
qed

lemma example_APP_NAME: "APP_NAME example_env example_arguments = ''my-blog-ab12''"
  by code_simp

text \<open>
  C3. Whatever the root directory, the application name consists of ASCII letters,
  digits, hyphens and underscores only: it is the directory name, a hyphen and the
  suffix, with every other character replaced by a hyphen.
\<close>

theorem APP_NAME_characters:
  "(\<forall>c \<in> set (APP_NAME env a). allowed_character c) \<and>
   APP_NAME env a =
     map (\<lambda>c. if allowed_character c then c else CHR ''-'') (DIR_NAME env a @ ''-'' @ SUFFIX env)"
  using APP_NAME_allowed APP_NAME_eq by blast

theorem APP_NAME_characters_witness:
  "APP_NAME example_env example_arguments = ''my-blog-ab12'' \<and>
   list_all allowed_character ''my-blog-ab12''"
  using APP_NAME_characters[of example_env example_arguments]
  unfolding example_APP_NAME list_all_iff by blast

subsection \<open>The random suffix\<close>

lemma length_toString_hex: "length (toString_hex bytes) = 2 * length bytes"
  by (induction bytes) (simp_all add: toString_hex_def)

lemma hex_digit_hexadecimal: "hexadecimal (hex_digit n)"
proof -
  have "n mod 16 < length ''0123456789abcdef''" by simp
  then have "''0123456789abcdef'' ! (n mod 16) \<in> set ''0123456789abcdef''"
    by (rule nth_mem)
  then show ?thesis by (simp only: hexadecimal_def hex_digit_def)
qed

lemma toString_hex_hexadecimal: "c \<in> set (toString_hex bytes) \<Longrightarrow> hexadecimal c"
  by (auto simp: toString_hex_def hex_digit_hexadecimal)

lemma SUFFIX_eq: "SUFFIX env = toString_hex [entropy env 0, entropy env 1]"
proof -
  have "[0..<2] = [0, Suc 0]" by (simp add: upt_rec)
  then show ?thesis by (simp add: SUFFIX_def getRandomString_def randomBytes_def)
qed

lemma example_SUFFIX: "SUFFIX example_env = ''ab12''"
  by code_simp

text \<open>
  C9, as the specification states it: the suffix has two hexadecimal characters, one
  byte. With the random bytes \<open>ab\<close> and \<open>12\<close> the suffix is \<open>ab12\<close>.
\<close>

theorem SUFFIX_two_characters_counterexample:
  "SUFFIX example_env = ''ab12'' \<and> length (SUFFIX example_env) \<noteq> 2"
  by (simp add: example_SUFFIX)

text \<open>
  C9, amended. \<^verbatim>\<open>getRandomString(2)\<close> asks for two random bytes: in every run the
  suffix consists of exactly four hexadecimal characters, the two digits of the first
  byte followed by the two digits of the second.
\<close>

theorem SUFFIX_four_hexadecimal_characters:
  "length (SUFFIX env) = 4 \<and> (\<forall>c \<in> set (SUFFIX env). hexadecimal c) \<and>
   SUFFIX env = toString_hex [entropy env 0, entropy env 1]"
  using toString_hex_hexadecimal by (auto simp: SUFFIX_eq length_toString_hex)

theorem SUFFIX_four_hexadecimal_characters_witness:
  "length (SUFFIX example_env) = 4 \<and> list_all hexadecimal (SUFFIX example_env) \<and>
   SUFFIX example_env = ''ab12''"
  using SUFFIX_four_hexadecimal_characters[of example_env] example_SUFFIX
  unfolding list_all_iff by blast

subsection \<open>The README\<close>

text \<open>
  C4. The pattern built from the escaped placeholder is the placeholder, character by
  character. A README is a sequence of parts without the placeholder, with the
  placeholder between them (\<open>placeholder_parts_exist\<close>); the new README has the same
  parts with the application name between them, so every occurrence is replaced.
\<close>

theorem newReadme_replaces_every_placeholder:
  assumes "\<forall>p \<in> set (p0 # ps). \<not> sublist REPLACER p"
  shows "RegExp (escapeRegExp REPLACER) = Inr (map Chr REPLACER) \<and>
         newReadme (join REPLACER (p0 # ps)) (APP_NAME env a) =
           Inr (join (APP_NAME env a) (p0 # ps))"
  using assms replace_REPLACER_join[OF APP_NAME_no_dollar]
  by (simp add: newReadme_def RegExp_escapeRegExp bind_result_def RegExp_replace_def)

theorem newReadme_replaces_every_placeholder_witness:
  "newReadme ''# symphonic-stack-template and symphonic-stack-template (.*)'' ''my-blog-ab12'' =
     Inr ''# my-blog-ab12 and my-blog-ab12 (.*)''"
  using newReadme_replaces_every_placeholder
          [of "''# ''" "['' and '', '' (.*)'']" example_env example_arguments]
  by (simp add: example_APP_NAME join_def REPLACER_def sublist_Cons_right)

subsection \<open>The TOML document\<close>

lemma replace_whole: "pat \<noteq> [] \<Longrightarrow> CHR ''$'' \<notin> set tpl \<Longrightarrow> String_replace pat pat tpl = tpl"
  using replace_from_first[of pat "[]" "[]" "[]" tpl]
  by (simp add: String_replace_def GetSubstitution_plain)

text \<open>
  C5. When the parsed document has \<^verbatim>\<open>app = "symphonic-stack-template"\<close>, patching it
  with the name \<^verbatim>\<open>foo-ab12\<close> gives a document whose \<^verbatim>\<open>app\<close> is \<^verbatim>\<open>foo-ab12\<close> and whose
  other keys have the values they had.
\<close>

theorem prodToml_patches_app_only:
  assumes "toml_parse env content = Inr doc"
    and "doc ''app'' = Some (TomlString ''symphonic-stack-template'')"
  shows "\<exists>doc'. prodToml env content ''foo-ab12'' = Inr doc' \<and>
           doc' ''app'' = Some (TomlString ''foo-ab12'') \<and>
           (\<forall>key. key \<noteq> ''app'' \<longrightarrow> doc' key = doc key)"
proof -
  have "String_replace REPLACER REPLACER ''foo-ab12'' = ''foo-ab12''"
    by (rule replace_whole) (simp_all add: REPLACER_def)
  then have "String_replace ''symphonic-stack-template'' REPLACER ''foo-ab12'' = ''foo-ab12''"
    by (simp add: REPLACER_def)
  with assms have "prodToml env content ''foo-ab12'' =
      Inr (doc(''app'' \<mapsto> TomlString ''foo-ab12''))"
    by (simp add: prodToml_def bind_result_def)
  then show ?thesis by simp
qed

theorem prodToml_patches_app_only_witness:
  "\<not> isl (prodToml example_env example_fly_toml ''foo-ab12'') \<and>
   projr (prodToml example_env example_fly_toml ''foo-ab12'') ''app'' =
     Some (TomlString ''foo-ab12'')"
  using prodToml_patches_app_only[of example_env example_fly_toml example_toml_document]
  by (auto simp: example_env_def example_toml_document_def)

subsection \<open>The package manager\<close>

lemma example_pnpm_version: "getPackageManagerVersion example_env ''pnpm'' = Inr ''6.32.3''"
  by code_simp

lemma example_pnpm_below_7: "semver_lt example_env ''6.32.3'' ''7.0.0'' = Inr True"
  by code_simp

lemma example_pnpm_at_least_6_13: "semver_gte example_env ''6.32.3'' ''6.13.0'' = Inr True"
  by code_simp

text \<open>
  C6. For each of npm, pnpm and yarn, the profile that the resolver returns has a
  \<^verbatim>\<open>run\<close> whose result, for every script and arguments, starts with the invocation
  prefix of the manager. The resolver returns a profile for npm and for yarn, and for
  pnpm whenever the version probe and the two comparisons return.
\<close>

theorem run_starts_with_invocation_prefix:
  "(\<forall>p. getPackageManagerCommand env m = Inr p \<longrightarrow>
      prefix (invocation_prefix m) (run p script args)) \<and>
   (m \<noteq> pnpm \<longrightarrow> \<not> isl (getPackageManagerCommand env m)) \<and>
   (\<forall>v b c. getPackageManagerVersion env ''pnpm'' = Inr v \<and>
      semver_lt env v ''7.0.0'' = Inr b \<and> semver_gte env v ''6.13.0'' = Inr c \<longrightarrow>
      \<not> isl (getPackageManagerCommand env m))"
proof (cases m)
  case npm
  then show ?thesis by (auto simp: prefix_def)
next
  case pnpm
  then show ?thesis
    by (auto simp: bind_result_def prefix_def split: sum.splits)
next
  case yarn
  then show ?thesis by (auto simp: prefix_def)
qed

theorem run_starts_with_invocation_prefix_witness:
  "\<not> isl (getPackageManagerCommand example_env pnpm) \<and>
   prefix ''pnpm run''
     (run (projr (getPackageManagerCommand example_env pnpm)) ''format'' (Some ''--loglevel warn''))"
proof -
  have r: "\<not> isl (getPackageManagerCommand example_env pnpm)"
    using run_starts_with_invocation_prefix[of example_env pnpm]
      example_pnpm_version example_pnpm_below_7 example_pnpm_at_least_6_13
    by blast
  then have "getPackageManagerCommand example_env pnpm =
      Inr (projr (getPackageManagerCommand example_env pnpm))"
    by simp
  with r show ?thesis
    using run_starts_with_invocation_prefix
            [of example_env pnpm "''format''" "Some ''--loglevel warn''"]
    by simp
qed

text \<open>
  C7. For pnpm, with \<open>v\<close> the probed version, \<open>below_7\<close> what \<^verbatim>\<open>semver.lt(v, '7.0.0')\<close>
  answers and \<open>at_least_6_13\<close> what \<^verbatim>\<open>semver.gte(v, '6.13.0')\<close> answers: \<^verbatim>\<open>run\<close> puts
  \<^verbatim>\<open>--\<close> before the arguments exactly when the version is below 7.0.0 (without
  arguments the command is the same for every version), and \<^verbatim>\<open>exec\<close> is \<^verbatim>\<open>pnpm exec\<close>
  exactly when the version is at least 6.13.0, and \<^verbatim>\<open>pnpx\<close> otherwise.
\<close>

theorem pnpm_profile_follows_version:
  assumes "getPackageManagerVersion env ''pnpm'' = Inr v"
    and "semver_lt env v ''7.0.0'' = Inr below_7"
    and "semver_gte env v ''6.13.0'' = Inr at_least_6_13"
  shows "\<exists>p. getPackageManagerCommand env pnpm = Inr p \<and>
     (\<forall>script args. args \<noteq> [] \<longrightarrow>
        ((run p script (Some args) = ''pnpm run '' @ script @ '' -- '' @ args) = below_7) \<and>
        ((run p script (Some args) = ''pnpm run '' @ script @ '' '' @ args) = (\<not> below_7))) \<and>
     (\<forall>script. run p script None = ''pnpm run '' @ script @ '' '' \<and>
        run p script (Some []) = ''pnpm run '' @ script @ '' '') \<and>
     ((exec p = ''pnpm exec'') = at_least_6_13) \<and> ((exec p = ''pnpx'') = (\<not> at_least_6_13))"
  using assms by (simp add: bind_result_def truthy_def)

theorem pnpm_profile_follows_version_witness:
  "\<not> isl (getPackageManagerCommand example_env pnpm) \<and>
   run (projr (getPackageManagerCommand example_env pnpm)) ''format'' (Some ''--loglevel warn'') =
     ''pnpm run format -- --loglevel warn'' \<and>
   exec (projr (getPackageManagerCommand example_env pnpm)) = ''pnpm exec''"
  using pnpm_profile_follows_version
          [OF example_pnpm_version example_pnpm_below_7 example_pnpm_at_least_6_13]
  by force

subsection \<open>The package manifest\<close>

lemma typecheck_no_border:
  assumes "0 < j" and "j < length '' typecheck''"
  shows "drop j '' typecheck'' \<noteq> take (length '' typecheck'' - j) '' typecheck''"
proof -
  have len: "length '' typecheck'' = 10" by simp
  have "list_all (\<lambda>j. drop j '' typecheck'' \<noteq> take (10 - j) '' typecheck'') [1..<10]"
    by code_simp
  then have "\<forall>j \<in> {1..<10}. drop j '' typecheck'' \<noteq> take (10 - j) '' typecheck''"
    by (simp add: list_all_iff)
  moreover have "j \<in> {1..<10}" using assms unfolding len by simp
  ultimately have "drop j '' typecheck'' \<noteq> take (10 - j) '' typecheck''" by blast
  then show ?thesis unfolding len .
qed

lemma remove_first_typecheck:
  assumes "\<not> sublist '' typecheck'' a"
  shows "String_replace (a @ '' typecheck'' @ b) '' typecheck'' [] = a @ b"
proof -
  have "\<forall>k<length a. \<not> prefix '' typecheck'' (drop k a @ '' typecheck'' @ b)"
    using no_early_match[OF typecheck_no_border assms] by blast
  then have "replace_from [] (a @ '' typecheck'' @ b) '' typecheck'' [] =
             [] @ a @ GetSubstitution '' typecheck'' ([] @ a) b [] @ b"
    by (intro replace_from_first) simp_all
  then show ?thesis by (simp add: String_replace_def)
qed

lemma remove_no_typecheck:
  "\<not> sublist '' typecheck'' v \<Longrightarrow> String_replace v '' typecheck'' [] = v"
  using replace_from_none[of "'' typecheck''" v "[]" "[]"] by (simp add: String_replace_def)

text \<open>
  C1, as the specification states it: for the untyped variant \<^verbatim>\<open>updatePackageJson\<close>
  produces a manifest whose \<^verbatim>\<open>validate\<close> script does not contain \<^verbatim>\<open>typecheck\<close>. A
  \<^verbatim>\<open>validate\<close> script that runs two type-checking scripts keeps the second one, and a
  manifest without development dependencies makes the function raise.
\<close>

theorem updatePackageJson_validate_counterexample:
  "\<not> isl (updatePackageJson ''my-blog-ab12'' False manifest_two_typechecks) \<and>
   script_of ''validate'' (projr (updatePackageJson ''my-blog-ab12'' False manifest_two_typechecks)) =
     Some ''run-p lint typecheck:e2e'' \<and>
   sublist ''typecheck'' ''run-p lint typecheck:e2e'' \<and>
   updatePackageJson ''my-blog-ab12'' False manifest_no_devDependencies = Inl TypeError"
  by (simp add: updatePackageJson_def manifest_two_typechecks_def manifest_no_devDependencies_def
      script_of_def String_replace_def sublist_Cons_right)

text \<open>
  C1, amended. For a manifest whose scripts have the keys \<^verbatim>\<open>typecheck\<close> and
  \<^verbatim>\<open>validate\<close>: for the typed variant the scripts are preserved unchanged; for the
  untyped variant, when the manifest has development dependencies, the scripts of
  the result have no \<^verbatim>\<open>typecheck\<close> key and the \<^verbatim>\<open>validate\<close> script is the original one
  with its first occurrence of \<^verbatim>\<open> typecheck\<close> (with the space before it) removed, and
  unchanged when there is none.
\<close>

theorem updatePackageJson_scripts:
  assumes "scripts m = Some sc" and "sc ''typecheck'' = Some t" and "sc ''validate'' = Some v"
  shows "(\<exists>m'. updatePackageJson n True m = Inr m' \<and> scripts m' = Some sc \<and>
            script_of ''typecheck'' m' = Some t \<and> script_of ''validate'' m' = Some v) \<and>
         (devDependencies m \<noteq> None \<longrightarrow>
            (\<exists>m'. updatePackageJson n False m = Inr m' \<and>
               script_of ''typecheck'' m' = None \<and>
               script_of ''validate'' m' = Some (String_replace v '' typecheck'' []))) \<and>
         (\<forall>a b. v = a @ '' typecheck'' @ b \<and> \<not> sublist '' typecheck'' a \<longrightarrow>
            String_replace v '' typecheck'' [] = a @ b) \<and>
         (\<not> sublist '' typecheck'' v \<longrightarrow> String_replace v '' typecheck'' [] = v)"
proof -
  have same: "sc(''typecheck'' := None, ''validate'' := None, ''typecheck'' := sc ''typecheck'',
                 ''validate'' := sc ''validate'') = sc"
    by (rule ext) simp
  have typed: "\<exists>m'. updatePackageJson n True m = Inr m' \<and> scripts m' = Some sc \<and>
            script_of ''typecheck'' m' = Some t \<and> script_of ''validate'' m' = Some v"
    using assms same by (simp add: updatePackageJson_def script_of_def)
  have untyped: "devDependencies m \<noteq> None \<longrightarrow>
            (\<exists>m'. updatePackageJson n False m = Inr m' \<and>
               script_of ''typecheck'' m' = None \<and>
               script_of ''validate'' m' = Some (String_replace v '' typecheck'' []))"
    using assms by (auto simp: updatePackageJson_def script_of_def)
  show ?thesis
    using typed untyped remove_first_typecheck remove_no_typecheck by blast
qed

theorem updatePackageJson_scripts_witness:
  "scripts (projr (updatePackageJson ''my-blog-ab12'' True example_manifest)) =
     scripts example_manifest \<and>
   \<not> isl (updatePackageJson ''my-blog-ab12'' False example_manifest) \<and>
   script_of ''typecheck'' (projr (updatePackageJson ''my-blog-ab12'' False example_manifest)) = None \<and>
   script_of ''validate'' (projr (updatePackageJson ''my-blog-ab12'' False example_manifest)) =
     Some ''run-p lint''"
proof -
  have v: "String_replace ''run-p lint typecheck'' '' typecheck'' [] = ''run-p lint''"
    by (simp add: String_replace_def)
  show ?thesis
    using updatePackageJson_scripts
            [of example_manifest
                "[''lint'' \<mapsto> ''eslint .'', ''typecheck'' \<mapsto> ''tsc'',
                  ''validate'' \<mapsto> ''run-p lint typecheck'']"
                "''tsc''" "''run-p lint typecheck''" "''my-blog-ab12''"]
    unfolding v by (auto simp: example_manifest_def)
qed

subsection \<open>The deploy workflow\<close>

lemma started_typed:
  "isTypeScript a \<Longrightarrow>
   started (main env a fs) = [] \<or>
   (\<exists>toml_doc readme_text dockerfile_text pkg.
      started (main env a fs) =
        fileOperationPromises env a toml_doc readme_text dockerfile_text pkg)"
  by (auto simp: main_def aborted_def pushed_operations_def Let_def
      split: sum.splits prod.splits option.splits)

lemma read_all_untyped:
  assumes "\<not> isTypeScript a" and "read_all env a fs = Inr f"
    and "readFile fs (DEPLOY_WORKFLOW_PATH env a) = Inr yaml_text"
    and "YAML_parse env yaml_text = Inr w"
  shows "deployWorkflow f = Some w \<and> (\<exists>vc. vitestConfig f = Some vc)"
  using assms
  by (auto simp: read_all_def readFileIfNotTypeScript_def bind_result_def split: sum.splits)

lemma started_after_read:
  "started (main env a fs) \<noteq> [] \<Longrightarrow> \<exists>f. read_all env a fs = Inr f"
  by (cases "read_all env a fs")
     (auto simp: main_def aborted_def split: sum.splits)

lemma started_with_pushed:
  assumes "read_all env a fs = Inr f" and "pushed_operations env a f = Inr pushed"
    and "started (main env a fs) \<noteq> []"
  shows "\<exists>toml_doc readme_text dockerfile_text pkg.
           started (main env a fs) =
             fileOperationPromises env a toml_doc readme_text dockerfile_text pkg @ pushed"
  using assms
  by (auto simp: main_def aborted_def Let_def split: sum.splits prod.splits option.splits)

lemma pushed_operations_untyped:
  assumes "\<not> isTypeScript a" and "deployWorkflow f = Some w" and "vitestConfig f = Some vc"
    and "cleanupDeployWorkflow env w (DEPLOY_WORKFLOW_PATH env a) = Inr (w', ops1)"
  shows "pushed_operations env a f =
           Inr (ops1 @ cleanupVitestConfig vc (VITEST_CONFIG_PATH env a))"
  using assms by (simp add: pushed_operations_def bind_result_def)

text \<open>
  C2. For a workflow whose jobs have a \<^verbatim>\<open>typecheck\<close> job and a \<^verbatim>\<open>deploy\<close> job with a
  \<^verbatim>\<open>needs\<close> sequence, \<^verbatim>\<open>cleanupDeployWorkflow\<close> gives a workflow whose jobs have no
  \<^verbatim>\<open>typecheck\<close> key and whose \<^verbatim>\<open>deploy\<close> job needs no \<^verbatim>\<open>typecheck\<close>, and writes it to
  the given path. For the untyped variant the block of \<^verbatim>\<open>main\<close> pushes the write of
  this cleaned workflow, followed by the write of the test configuration; a run that
  has read such a workflow from the workflow file and starts file operations starts
  eight of them, the seventh being the write of the cleaned workflow to that file.
  For the typed variant the block pushes no operation, and \<^verbatim>\<open>main\<close> starts no write of
  the workflow file (the path of the workflow being none of the paths of
  \<^verbatim>\<open>fly.toml\<close>, the README and the Dockerfile).
\<close>

theorem cleanupDeployWorkflow_removes_typecheck:
  assumes "jobs w = Some js" and "js ''typecheck'' = Some t" and "js ''deploy'' = Some d"
    and "needs d = Some (NeedsSeq ns)"
  shows "(\<exists>w' js' d' ns'.
            cleanupDeployWorkflow env w path = Inr (w', [writeFile path (YAML_stringify env w')]) \<and>
            jobs w' = Some js' \<and> js' ''typecheck'' = None \<and> js' ''deploy'' = Some d' \<and>
            needs d' = Some (NeedsSeq ns') \<and> ''typecheck'' \<notin> set ns' \<and>
            (\<not> isTypeScript a \<and> path = DEPLOY_WORKFLOW_PATH env a \<and>
             deployWorkflow f = Some w \<and> vitestConfig f = Some vc \<longrightarrow>
               pushed_operations env a f =
                 Inr (writeFile path (YAML_stringify env w') #
                      cleanupVitestConfig vc (VITEST_CONFIG_PATH env a))) \<and>
            (\<not> isTypeScript a \<and> path = DEPLOY_WORKFLOW_PATH env a \<and>
             readFile fs path = Inr yaml_text \<and> YAML_parse env yaml_text = Inr w \<and>
             started (main env a fs) \<noteq> [] \<longrightarrow>
               length (started (main env a fs)) = 8 \<and>
               started (main env a fs) ! 6 = writeFile path (YAML_stringify env w'))) \<and>
         (isTypeScript a \<and>
          DEPLOY_WORKFLOW_PATH env a \<notin>
            {FLY_TOML_PATH env a, README_PATH env a, DOCKERFILE_PATH env a} \<longrightarrow>
          (\<forall>content. writeFile (DEPLOY_WORKFLOW_PATH env a) content \<notin> set (started (main env a fs)))) \<and>
         (isTypeScript a \<longrightarrow> pushed_operations env a f = Inr [])"
proof -
  obtain w' js' d' ns' where
    c: "cleanupDeployWorkflow env w path = Inr (w', [writeFile path (YAML_stringify env w')])" and
    p: "jobs w' = Some js'" "js' ''typecheck'' = None" "js' ''deploy'' = Some d'"
       "needs d' = Some (NeedsSeq ns')" "''typecheck'' \<notin> set ns'"
    using assms by (simp add: cleanupDeployWorkflow_def Let_def)
  have pushed: "pushed_operations env a f' =
        Inr (writeFile path (YAML_stringify env w') #
             cleanupVitestConfig vc' (VITEST_CONFIG_PATH env a))"
    if "\<not> isTypeScript a" and "path = DEPLOY_WORKFLOW_PATH env a"
      and "deployWorkflow f' = Some w" and "vitestConfig f' = Some vc'" for f' vc'
    using pushed_operations_untyped[OF that(1) that(3) that(4), of env w'
            "[writeFile path (YAML_stringify env w')]"] c that(2)
    by simp
  have run: "length (started (main env a fs)) = 8 \<and>
             started (main env a fs) ! 6 = writeFile path (YAML_stringify env w')"
    if u: "\<not> isTypeScript a" and pa: "path = DEPLOY_WORKFLOW_PATH env a"
      and rd: "readFile fs path = Inr yaml_text" and ya: "YAML_parse env yaml_text = Inr w"
      and ne: "started (main env a fs) \<noteq> []"
  proof -
    from started_after_read[OF ne] obtain f' where f': "read_all env a fs = Inr f'" ..
    from read_all_untyped[OF u f' rd[unfolded pa] ya] obtain vc' where
      dw: "deployWorkflow f' = Some w" and vc': "vitestConfig f' = Some vc'"
      by blast
    from started_with_pushed[OF f' pushed[OF u pa dw vc'] ne]
    obtain toml_doc readme_text dockerfile_text pkg where
      "started (main env a fs) =
         fileOperationPromises env a toml_doc readme_text dockerfile_text pkg @
         writeFile path (YAML_stringify env w') #
         cleanupVitestConfig vc' (VITEST_CONFIG_PATH env a)"
      by blast
    then show ?thesis
      by (simp add: fileOperationPromises_def cleanupVitestConfig_def)
  qed
  have second: "writeFile (DEPLOY_WORKFLOW_PATH env a) content \<notin> set (started (main env a fs))"
    if ts: "isTypeScript a"
      and distinct: "DEPLOY_WORKFLOW_PATH env a \<notin>
            {FLY_TOML_PATH env a, README_PATH env a, DOCKERFILE_PATH env a}"
    for content
    using started_typed[OF ts, of env fs] distinct
    by (auto simp: fileOperationPromises_def)
  have third: "isTypeScript a \<longrightarrow> pushed_operations env a f = Inr []"
    by (simp add: pushed_operations_def)
  from c p pushed run second third show ?thesis by blast
qed

lemma example_pm:
  "getPackageManagerCommand example_env pnpm =
     Inr \<lparr>exec = ''pnpm exec'', lockfile = ''pnpm-lock.yaml'',
          run = (\<lambda>script args.
              ''pnpm run '' @ script @ '' '' @ (if truthy args then ''-- '' @ the args else []))\<rparr>"
  by (simp add: bind_result_def example_pnpm_version example_pnpm_below_7
      example_pnpm_at_least_6_13)

lemma example_paths:
  "FLY_TOML_PATH example_env example_arguments = ''/srv/my blog/fly.toml''"
  "README_PATH example_env example_arguments = ''/srv/my blog/README.md''"
  "DOCKERFILE_PATH example_env example_arguments = ''/srv/my blog/Dockerfile''"
  "DEPLOY_WORKFLOW_PATH example_env example_arguments =
     ''/srv/my blog/.github/workflows/deploy.yml''"
  "VITEST_CONFIG_PATH example_env example_arguments = ''/srv/my blog/vitest.config.js''"
  "path_join example_env [rootDirectory example_arguments, ''package.json''] =
     ''/srv/my blog/package.json''"
  "path_join example_env [rootDirectory example_arguments, ''remix.init'', ''gitignore''] =
     ''/srv/my blog/remix.init/gitignore''"
  "path_join example_env [rootDirectory example_arguments, ''.gitignore''] =
     ''/srv/my blog/.gitignore''"
  "path_join example_env [rootDirectory example_arguments, ''.github'', ''dependabot.yml''] =
     ''/srv/my blog/.github/dependabot.yml''"
  by (simp_all add: FLY_TOML_PATH_def README_PATH_def DOCKERFILE_PATH_def
      DEPLOY_WORKFLOW_PATH_def VITEST_CONFIG_PATH_def FILE_EXTENSION_def
      example_env_def example_arguments_def join_def)

lemma example_read_all:
  "read_all example_env example_arguments example_filesystem =
     Inr \<lparr>prodContent = example_fly_toml, readme = ''# symphonic-stack-template'',
          dockerfile = ''ADD package.json ./'', deployWorkflow = Some example_workflow,
          vitestConfig = Some ''setupFiles: ./test/setup-test-env.ts'',
          packageJson = example_manifest\<rparr>"
  unfolding read_all_def example_paths PackageJson_load_def
  by (simp add: readFile_def example_filesystem_def readFileIfNotTypeScript_def bind_result_def
      example_arguments_def example_env_def)

lemma example_run:
  "map is_save (started (main example_env example_arguments example_filesystem)) =
     [False, False, False, True, False, False, False, False] \<and>
   outcome (main example_env example_arguments example_filesystem) = Inr ''pnpm run dev ''"
proof -
  define pm where "pm = \<lparr>exec = ''pnpm exec'', lockfile = ''pnpm-lock.yaml'',
          run = (\<lambda>script args.
              ''pnpm run '' @ script @ '' '' @ (if truthy args then ''-- '' @ the args else []))\<rparr>"
  define f where "f = \<lparr>prodContent = example_fly_toml, readme = ''# symphonic-stack-template'',
          dockerfile = ''ADD package.json ./'', deployWorkflow = Some example_workflow,
          vitestConfig = Some ''setupFiles: ./test/setup-test-env.ts'',
          packageJson = example_manifest\<rparr>"
  have s1: "getPackageManagerCommand example_env (packageManager example_arguments) = Inr pm"
    using example_pm by (simp add: example_arguments_def pm_def)
  have s2: "read_all example_env example_arguments example_filesystem = Inr f"
    using example_read_all by (simp add: f_def)
  obtain c1 where s3: "prodToml example_env (prodContent f) ''my-blog-ab12'' = Inr c1"
    by (simp add: f_def prodToml_def bind_result_def example_env_def example_toml_document_def)
  obtain c2 where s4: "newReadme (readme f) ''my-blog-ab12'' = Inr c2"
    by (simp add: newReadme_def RegExp_escapeRegExp bind_result_def)
  obtain c3 where s5: "newDockerfile pm (dockerfile f) = Inr c3"
    by (simp add: newDockerfile_def RegExp_escapeRegExp bind_result_def pm_def)
  obtain m where s6: "updatePackageJson ''my-blog-ab12'' (isTypeScript example_arguments)
                        (packageJson f) = Inr m"
    by (simp add: updatePackageJson_def f_def example_manifest_def example_arguments_def)
  have ts: "isTypeScript example_arguments = False"
    by (simp add: example_arguments_def)
  obtain c4 c5 where s7: "pushed_operations example_env example_arguments f =
      Inr [writeFile ''/srv/my blog/.github/workflows/deploy.yml'' c4,
           writeFile ''/srv/my blog/vitest.config.js'' c5]"
    by (simp add: pushed_operations_def f_def example_paths cleanupDeployWorkflow_def
        example_workflow_def cleanupVitestConfig_def bind_result_def Let_def ts)
  have ops: "fileOperationPromises example_env example_arguments c1 c2 c3 m =
      [writeFile ''/srv/my blog/fly.toml'' (toml_stringify example_env c1),
       writeFile ''/srv/my blog/README.md'' c2,
       writeFile ''/srv/my blog/Dockerfile'' c3,
       save ''/srv/my blog/package.json'' m,
       copyFile ''/srv/my blog/remix.init/gitignore'' ''/srv/my blog/.gitignore'',
       rm ''/srv/my blog/.github/dependabot.yml'']"
    unfolding fileOperationPromises_def example_paths ..
  have fs: "example_filesystem ''/srv/my blog/remix.init/gitignore'' = Some ''node_modules''"
    "example_filesystem ''/srv/my blog/.github/dependabot.yml'' = Some ''version: 2''"
    by (simp_all add: example_filesystem_def)
  obtain fs1 where s8: "run_ops example_env
      (fileOperationPromises example_env example_arguments c1 c2 c3 m @
       [writeFile ''/srv/my blog/.github/workflows/deploy.yml'' c4,
        writeFile ''/srv/my blog/vitest.config.js'' c5]) example_filesystem = (fs1, None)"
    unfolding ops by (simp add: fs)
  have s9: "execSync_inherit example_env c d fs1 = (fs1, None)" for c d
    by (simp add: example_env_def)
  have dev: "run pm ''dev'' None = ''pnpm run dev ''"
    by (simp add: pm_def truthy_def)
  have "main example_env example_arguments example_filesystem =
      \<lparr>files_after = fs1,
       started = fileOperationPromises example_env example_arguments c1 c2 c3 m @
         [writeFile ''/srv/my blog/.github/workflows/deploy.yml'' c4,
          writeFile ''/srv/my blog/vitest.config.js'' c5],
       outcome = Inr ''pnpm run dev ''\<rparr>"
    unfolding main_def example_APP_NAME s1 s2 sum.case s3 s4 s5 s6 Let_def s7 s8 prod.case
      option.case s9 dev ..
  then show ?thesis by (simp add: ops)
qed

theorem cleanupDeployWorkflow_removes_typecheck_witness:
  "started (main example_env example_arguments example_filesystem) ! 6 =
     writeFile ''/srv/my blog/.github/workflows/deploy.yml'' ''deploy needs lint'' \<and>
   writeFile ''/srv/my blog/.github/workflows/deploy.yml'' ''deploy needs lint'' \<notin>
     set (started (main example_env (example_arguments\<lparr>isTypeScript := True\<rparr>) example_filesystem))"
proof -
  have paths:
    "DEPLOY_WORKFLOW_PATH example_env (example_arguments\<lparr>isTypeScript := True\<rparr>) =
       ''/srv/my blog/.github/workflows/deploy.yml''"
    "FLY_TOML_PATH example_env (example_arguments\<lparr>isTypeScript := True\<rparr>) =
       ''/srv/my blog/fly.toml''"
    "README_PATH example_env (example_arguments\<lparr>isTypeScript := True\<rparr>) =
       ''/srv/my blog/README.md''"
    "DOCKERFILE_PATH example_env (example_arguments\<lparr>isTypeScript := True\<rparr>) =
       ''/srv/my blog/Dockerfile''"
    by (simp_all add: DEPLOY_WORKFLOW_PATH_def FLY_TOML_PATH_def README_PATH_def
        DOCKERFILE_PATH_def example_env_def example_arguments_def join_def)
  have wf: "jobs example_workflow =
      Some [''typecheck'' \<mapsto> \<lparr>needs = None\<rparr>,
            ''deploy'' \<mapsto> \<lparr>needs = Some (NeedsSeq [''lint'', ''typecheck''])\<rparr>]"
    by (simp add: example_workflow_def)
  have cleaned: "cleanupDeployWorkflow example_env example_workflow p =
      Inr (w', [writeFile p (YAML_stringify example_env w')]) \<Longrightarrow>
      YAML_stringify example_env w' = ''deploy needs lint''" for p w'
    by (auto simp: cleanupDeployWorkflow_def example_workflow_def Let_def example_env_def
        join_def)
  have untyped: "\<not> isTypeScript example_arguments"
    by (simp add: example_arguments_def)
  have rd: "readFile example_filesystem ''/srv/my blog/.github/workflows/deploy.yml'' =
      Inr example_deploy_yml"
    by (simp add: readFile_def example_filesystem_def)
  have ya: "YAML_parse example_env example_deploy_yml = Inr example_workflow"
    by (simp add: example_env_def)
  have ne: "started (main example_env example_arguments example_filesystem) \<noteq> []"
    using example_run by auto
  have js: "[''typecheck'' \<mapsto> \<lparr>needs = None\<rparr>,
             ''deploy'' \<mapsto> \<lparr>needs = Some (NeedsSeq [''lint'', ''typecheck''])\<rparr>] ''typecheck'' =
              Some \<lparr>needs = None\<rparr>"
    "[''typecheck'' \<mapsto> \<lparr>needs = None\<rparr>,
      ''deploy'' \<mapsto> \<lparr>needs = Some (NeedsSeq [''lint'', ''typecheck''])\<rparr>] ''deploy'' =
       Some \<lparr>needs = Some (NeedsSeq [''lint'', ''typecheck''])\<rparr>"
    "needs \<lparr>needs = Some (NeedsSeq [''lint'', ''typecheck''])\<rparr> =
       Some (NeedsSeq [''lint'', ''typecheck''])"
    by simp_all
  obtain w' where
    c: "cleanupDeployWorkflow example_env example_workflow
          ''/srv/my blog/.github/workflows/deploy.yml'' =
        Inr (w', [writeFile ''/srv/my blog/.github/workflows/deploy.yml''
                    (YAML_stringify example_env w')])" and
    r: "\<not> isTypeScript example_arguments \<and>
        ''/srv/my blog/.github/workflows/deploy.yml'' =
          DEPLOY_WORKFLOW_PATH example_env example_arguments \<and>
        readFile example_filesystem ''/srv/my blog/.github/workflows/deploy.yml'' =
          Inr example_deploy_yml \<and>
        YAML_parse example_env example_deploy_yml = Inr example_workflow \<and>
        started (main example_env example_arguments example_filesystem) \<noteq> [] \<longrightarrow>
        length (started (main example_env example_arguments example_filesystem)) = 8 \<and>
        started (main example_env example_arguments example_filesystem) ! 6 =
          writeFile ''/srv/my blog/.github/workflows/deploy.yml''
            (YAML_stringify example_env w')"
    using cleanupDeployWorkflow_removes_typecheck
            [OF wf js, where env = example_env
               and path = "''/srv/my blog/.github/workflows/deploy.yml''"
               and a = example_arguments and fs = example_filesystem
               and yaml_text = example_deploy_yml]
    by blast
  have first: "started (main example_env example_arguments example_filesystem) ! 6 =
     writeFile ''/srv/my blog/.github/workflows/deploy.yml'' ''deploy needs lint''"
    using r untyped rd ya ne example_paths(4) cleaned[OF c] by simp
  have second: "writeFile ''/srv/my blog/.github/workflows/deploy.yml'' ''deploy needs lint'' \<notin>
     set (started (main example_env (example_arguments\<lparr>isTypeScript := True\<rparr>) example_filesystem))"
    using cleanupDeployWorkflow_removes_typecheck
            [of example_workflow
                "[''typecheck'' \<mapsto> \<lparr>needs = None\<rparr>,
                  ''deploy'' \<mapsto> \<lparr>needs = Some (NeedsSeq [''lint'', ''typecheck''])\<rparr>]"
                "\<lparr>needs = None\<rparr>" "\<lparr>needs = Some (NeedsSeq [''lint'', ''typecheck''])\<rparr>"
                "[''lint'', ''typecheck'']" example_env "''deploy.yml''"
                "example_arguments\<lparr>isTypeScript := True\<rparr>" _ _ example_filesystem]
      wf
    unfolding paths
    by (auto simp: example_arguments_def)
  from first second show ?thesis ..
qed

subsection \<open>The run\<close>

lemma read_all_fails:
  assumes "isl (readFile fs (FLY_TOML_PATH env a)) \<or>
           isl (readFile fs (README_PATH env a)) \<or>
           isl (readFile fs (DOCKERFILE_PATH env a)) \<or>
           isl (readFileIfNotTypeScript (isTypeScript a) fs (DEPLOY_WORKFLOW_PATH env a)
                  (YAML_parse env)) \<or>
           isl (readFileIfNotTypeScript (isTypeScript a) fs (VITEST_CONFIG_PATH env a) Inr) \<or>
           isl (PackageJson_load env fs (rootDirectory a))"
  shows "\<exists>e. read_all env a fs = Inl e \<and>
           (readFile fs (FLY_TOML_PATH env a) = Inl e \<or>
            readFile fs (README_PATH env a) = Inl e \<or>
            readFile fs (DOCKERFILE_PATH env a) = Inl e \<or>
            readFileIfNotTypeScript (isTypeScript a) fs (DEPLOY_WORKFLOW_PATH env a)
              (YAML_parse env) = Inl e \<or>
            readFileIfNotTypeScript (isTypeScript a) fs (VITEST_CONFIG_PATH env a) Inr = Inl e \<or>
            PackageJson_load env fs (rootDirectory a) = Inl e)"
  using assms
  by (cases "readFile fs (FLY_TOML_PATH env a)";
      cases "readFile fs (README_PATH env a)";
      cases "readFile fs (DOCKERFILE_PATH env a)";
      cases "readFileIfNotTypeScript (isTypeScript a) fs (DEPLOY_WORKFLOW_PATH env a)
               (YAML_parse env)";
      cases "readFileIfNotTypeScript (isTypeScript a) fs (VITEST_CONFIG_PATH env a)
               (Inr :: string \<Rightarrow> error + string)";
      cases "PackageJson_load env fs (rootDirectory a)")
     (simp_all add: read_all_def bind_result_def)

text \<open>
  C8. When one of the six reads of the read phase fails, \<^verbatim>\<open>main\<close> ends with an error,
  has started no write, copy or delete, and leaves the file system as it was; when
  the package manager has been resolved, the error is that of a failed read.
\<close>

theorem read_failure_aborts_before_any_write:
  assumes "isl (readFile fs (FLY_TOML_PATH env a)) \<or>
           isl (readFile fs (README_PATH env a)) \<or>
           isl (readFile fs (DOCKERFILE_PATH env a)) \<or>
           isl (readFileIfNotTypeScript (isTypeScript a) fs (DEPLOY_WORKFLOW_PATH env a)
                  (YAML_parse env)) \<or>
           isl (readFileIfNotTypeScript (isTypeScript a) fs (VITEST_CONFIG_PATH env a) Inr) \<or>
           isl (PackageJson_load env fs (rootDirectory a))"
  shows "files_after (main env a fs) = fs \<and> started (main env a fs) = [] \<and>
         isl (outcome (main env a fs)) \<and>
         (\<not> isl (getPackageManagerCommand env (packageManager a)) \<longrightarrow>
            (\<exists>e. outcome (main env a fs) = Inl e \<and>
               (readFile fs (FLY_TOML_PATH env a) = Inl e \<or>
                readFile fs (README_PATH env a) = Inl e \<or>
                readFile fs (DOCKERFILE_PATH env a) = Inl e \<or>
                readFileIfNotTypeScript (isTypeScript a) fs (DEPLOY_WORKFLOW_PATH env a)
                  (YAML_parse env) = Inl e \<or>
                readFileIfNotTypeScript (isTypeScript a) fs (VITEST_CONFIG_PATH env a) Inr = Inl e \<or>
                PackageJson_load env fs (rootDirectory a) = Inl e)))"
proof -
  from read_all_fails[OF assms] obtain e where
    e: "read_all env a fs = Inl e" and
    which: "readFile fs (FLY_TOML_PATH env a) = Inl e \<or>
            readFile fs (README_PATH env a) = Inl e \<or>
            readFile fs (DOCKERFILE_PATH env a) = Inl e \<or>
            readFileIfNotTypeScript (isTypeScript a) fs (DEPLOY_WORKFLOW_PATH env a)
              (YAML_parse env) = Inl e \<or>
            readFileIfNotTypeScript (isTypeScript a) fs (VITEST_CONFIG_PATH env a) Inr = Inl e \<or>
            PackageJson_load env fs (rootDirectory a) = Inl e"
    by blast
  show ?thesis
  proof (cases "getPackageManagerCommand env (packageManager a)")
    case (Inl e')
    then show ?thesis by (simp add: main_def aborted_def)
  next
    case (Inr pm)
    then have "main env a fs = aborted fs e" using e by (simp add: main_def)
    with Inr which show ?thesis by (simp add: aborted_def)
  qed
qed

theorem read_failure_aborts_before_any_write_witness:
  "files_after (main example_env example_arguments Map.empty) = Map.empty \<and>
   started (main example_env example_arguments Map.empty) = [] \<and>
   isl (outcome (main example_env example_arguments Map.empty))"
  using read_failure_aborts_before_any_write[of Map.empty example_env example_arguments]
  by (simp add: readFile_def)







end
